theory Spec2Isabelle
  imports Complex_Main "HOL-Library.Log_Nat"
begin

section \<open>JavaScript numbers\<close>

text \<open>
  Every number of the engine is a JavaScript number, an IEEE 754 binary64 value.  Several
  properties of the engine depend on what binary64 arithmetic does where exact arithmetic does
  something else (the particle accumulator compares against the rounded \<open>1 / rate\<close>;
  a division by zero yields an infinity or NaN instead of failing), so the arithmetic is
  written out: a finite value is the rational it denotes, every operation rounds its exact
  result to the nearest binary64 value, ties to even, and the special values and the sign of
  zero follow the standard.  \<open>Fin 0\<close> is \<open>+0\<close> and \<open>NZero\<close> is \<open>-0\<close>.
\<close>

datatype number = NaN | PInf | NInf | NZero | Fin rat

definition pow2 :: "int \<Rightarrow> rat" where
  "pow2 e = (if 0 \<le> e then 2 ^ nat e else 1 / 2 ^ nat (- e))"

text \<open>The binary exponent of a positive rational: \<open>2 ^ ilog2 a \<le> a < 2 ^ (ilog2 a + 1)\<close>.\<close>

definition ilog2 :: "rat \<Rightarrow> int" where
  "ilog2 a = (if 1 \<le> a then int (floorlog 2 (nat \<lfloor>a\<rfloor>)) - 1
              else - int (floorlog 2 (nat (\<lceil>1 / a\<rceil> - 1))))"

text \<open>Rounding to the nearest integer, a tie going to the even neighbour.\<close>

definition rne :: "rat \<Rightarrow> int" where
  "rne m = (let f = \<lfloor>m\<rfloor>; r = m - of_int f in
            if r < 1 / 2 then f else if 1 / 2 < r then f + 1
            else if even f then f else f + 1)"

text \<open>
  Rounding to 53 significant bits; below \<open>2 ^ - 1022\<close> the spacing stays \<open>2 ^ - 1074\<close>
  (subnormal numbers).
\<close>

definition round64 :: "rat \<Rightarrow> rat" where
  "round64 q = (if q = 0 then 0 else
     let a = \<bar>q\<bar>; e = max (ilog2 a) (- 1022); u = pow2 (e - 52)
     in sgn q * of_int (rne (a / u)) * u)"

definition zero :: "bool \<Rightarrow> number" where
  "zero s = (if s then NZero else Fin 0)"

definition inf :: "bool \<Rightarrow> number" where
  "inf s = (if s then NInf else PInf)"

text \<open>
  The binary64 result of an operation whose exact result is \<open>q\<close>; \<open>s\<close> is the sign an
  exact zero gets.
\<close>

definition pack :: "bool \<Rightarrow> rat \<Rightarrow> number" where
  "pack s q = (let r = round64 q in
     if pow2 1024 \<le> \<bar>r\<bar> then inf (r < 0)
     else if r = 0 then zero (if q = 0 then s else q < 0)
     else Fin r)"

fun sign_bit :: "number \<Rightarrow> bool" where
  "sign_bit NInf = True"
| "sign_bit NZero = True"
| "sign_bit (Fin q) = (q < 0)"
| "sign_bit _ = False"

fun is_inf :: "number \<Rightarrow> bool" where
  "is_inf PInf = True"
| "is_inf NInf = True"
| "is_inf _ = False"

fun is_zero :: "number \<Rightarrow> bool" where
  "is_zero NZero = True"
| "is_zero (Fin q) = (q = 0)"
| "is_zero _ = False"

fun val :: "number \<Rightarrow> rat" where
  "val (Fin q) = q"
| "val _ = 0"

fun lvl :: "number \<Rightarrow> int" where
  "lvl NInf = - 1"
| "lvl PInf = 1"
| "lvl _ = 0"

definition num_add :: "number \<Rightarrow> number \<Rightarrow> number" where
  "num_add a b =
    (if a = NaN \<or> b = NaN then NaN
     else if is_inf a then (if is_inf b \<and> a \<noteq> b then NaN else a)
     else if is_inf b then b
     else if val a + val b = 0 then zero (sign_bit a \<and> sign_bit b)
     else pack False (val a + val b))"

fun num_neg :: "number \<Rightarrow> number" where
  "num_neg NaN = NaN"
| "num_neg PInf = NInf"
| "num_neg NInf = PInf"
| "num_neg NZero = Fin 0"
| "num_neg (Fin q) = (if q = 0 then NZero else Fin (- q))"

definition num_sub :: "number \<Rightarrow> number \<Rightarrow> number" where
  "num_sub a b = num_add a (num_neg b)"

definition num_mul :: "number \<Rightarrow> number \<Rightarrow> number" where
  "num_mul a b =
    (if a = NaN \<or> b = NaN then NaN
     else if is_inf a \<or> is_inf b then
       (if is_zero a \<or> is_zero b then NaN else inf (sign_bit a \<noteq> sign_bit b))
     else pack (sign_bit a \<noteq> sign_bit b) (val a * val b))"

definition num_div :: "number \<Rightarrow> number \<Rightarrow> number" where
  "num_div a b =
    (if a = NaN \<or> b = NaN then NaN
     else if is_inf a then (if is_inf b then NaN else inf (sign_bit a \<noteq> sign_bit b))
     else if is_inf b then zero (sign_bit a \<noteq> sign_bit b)
     else if is_zero b then (if is_zero a then NaN else inf (sign_bit a \<noteq> sign_bit b))
     else pack (sign_bit a \<noteq> sign_bit b) (val a / val b))"

text \<open>Comparisons: false as soon as an operand is NaN; the two zeros are equal.\<close>

definition num_lt :: "number \<Rightarrow> number \<Rightarrow> bool" where
  "num_lt a b =
    (a \<noteq> NaN \<and> b \<noteq> NaN \<and> (lvl a < lvl b \<or> (lvl a = lvl b \<and> val a < val b)))"

definition num_le :: "number \<Rightarrow> number \<Rightarrow> bool" where
  "num_le a b =
    (a \<noteq> NaN \<and> b \<noteq> NaN \<and> (lvl a < lvl b \<or> (lvl a = lvl b \<and> val a \<le> val b)))"

definition num_gt :: "number \<Rightarrow> number \<Rightarrow> bool" where
  "num_gt a b = num_lt b a"

definition num_ge :: "number \<Rightarrow> number \<Rightarrow> bool" where
  "num_ge a b = num_le b a"

text \<open>\<^verbatim>\<open>Math.min\<close>: NaN if an operand is NaN, and \<open>-0\<close> is below \<open>+0\<close>.\<close>

definition Math_min :: "number \<Rightarrow> number \<Rightarrow> number" where
  "Math_min a b =
    (if a = NaN \<or> b = NaN then NaN
     else if num_lt a b then a else if num_lt b a then b
     else if sign_bit a then a else b)"

text \<open>
  Truthiness of a number, and \<^verbatim>\<open>a || d\<close> on numbers: \<open>0\<close>, \<open>-0\<close> and NaN are falsy.
  An absent property is \<^verbatim>\<open>undefined\<close>, which is falsy as well.
\<close>

definition truthy :: "number \<Rightarrow> bool" where
  "truthy a = (a \<noteq> NaN \<and> \<not> is_zero a)"

definition or_default :: "number \<Rightarrow> number \<Rightarrow> number" where
  "or_default a d = (if truthy a then a else d)"

definition opt_or :: "number option \<Rightarrow> number \<Rightarrow> number" where
  "opt_or a d = (case a of None \<Rightarrow> d | Some v \<Rightarrow> or_default v d)"

text \<open>The value of a decimal literal of the source.\<close>

definition lit :: "rat \<Rightarrow> number" where
  "lit q = pack False q"

record vec3 =
  vx :: number
  vy :: number
  vz :: number

text \<open>
  \<^verbatim>\<open>Math.sqrt\<close>, correctly rounded.  \<open>isqrt_between lo hi n\<close> searches the integer square
  root of \<open>n\<close> between \<open>lo\<close> and \<open>hi\<close>; the root of a positive rational lies between two
  neighbouring binary64 values \<open>n * u\<close> and \<open>(n + 1) * u\<close> and goes to the nearer one.
\<close>

function isqrt_between :: "nat \<Rightarrow> nat \<Rightarrow> nat \<Rightarrow> nat" where
  "isqrt_between lo hi n =
    (if hi \<le> lo + 1 then lo
     else let mid = (lo + hi) div 2
          in if mid * mid \<le> n then isqrt_between mid hi n else isqrt_between lo mid n)"
  by pat_completeness auto
termination
  by (relation "measure (\<lambda>(lo, hi, n). hi - lo)") auto

declare isqrt_between.simps [simp del]

definition isqrt :: "nat \<Rightarrow> nat" where
  "isqrt n = isqrt_between 0 (n + 1) n"

definition sqrt64 :: "rat \<Rightarrow> rat" where
  "sqrt64 q =
    (let k = ilog2 q div 2; u = pow2 (k - 52); s = q / (u * u);
         n = int (isqrt (nat \<lfloor>s\<rfloor>)); m = of_int n + 1 / 2
     in if s < m * m then of_int n * u
        else if m * m < s then of_int (n + 1) * u
        else if even n then of_int n * u else of_int (n + 1) * u)"

fun Math_sqrt :: "number \<Rightarrow> number" where
  "Math_sqrt NaN = NaN"
| "Math_sqrt PInf = PInf"
| "Math_sqrt NInf = NaN"
| "Math_sqrt NZero = NZero"
| "Math_sqrt (Fin q) = (if q < 0 then NaN else if q = 0 then Fin 0 else Fin (sqrt64 q))"

section \<open>ParticleSystem\<close>

record particle =
  p_position :: vec3
  p_velocity :: vec3
  life :: number
  maxLife :: number

text \<open>
  An emitter.  \<open>maxParticles\<close> is a number like the others: \<^verbatim>\<open>createEmitter\<close> keeps whatever
  truthy value it is given.  \<open>em_system\<close> is the position buffer of the renderer's point
  cloud, present when the emitter was created in 3D mode.
\<close>

record emitter =
  em_position :: vec3
  rate :: number
  lifetime :: number
  em_velocity :: vec3
  velocityVariance :: vec3
  em_size :: number
  sizeEnd :: number
  particles :: "particle list"
  timer :: number
  maxParticles :: number
  em_enabled :: bool
  em_system :: "number list option"

text \<open>
  The particle pushed by one pass of the spawn loop.  \<^verbatim>\<open>Math.random()\<close> is the sequence
  \<open>rng\<close>; the three draws of a particle are \<open>rng i\<close>, \<open>rng (i + 1)\<close>, \<open>rng (i + 2)\<close>.
\<close>

definition jitter :: "number \<Rightarrow> number \<Rightarrow> number \<Rightarrow> number" where
  "jitter base r var = num_add base (num_mul (num_mul (num_sub r (Fin (1 / 2))) var) (Fin 2))"

definition new_particle :: "(nat \<Rightarrow> number) \<Rightarrow> nat \<Rightarrow> emitter \<Rightarrow> particle" where
  "new_particle rng i em =
    \<lparr> p_position = em_position em,
      p_velocity =
        \<lparr> vx = jitter (vx (em_velocity em)) (rng i) (vx (velocityVariance em)),
          vy = jitter (vy (em_velocity em)) (rng (i + 1)) (vy (velocityVariance em)),
          vz = jitter (vz (em_velocity em)) (rng (i + 2)) (vz (velocityVariance em)) \<rparr>,
      life = lifetime em,
      maxLife = lifetime em \<rparr>"

text \<open>The length of an array, as the number it is in a comparison.\<close>

definition array_length :: "'a list \<Rightarrow> number" where
  "array_length xs = Fin (of_nat (length xs))"

text \<open>
  The spawn loop
  \<^verbatim>\<open>while (emitter.timer > 1 / emitter.rate && emitter.particles.length < emitter.maxParticles)\<close>:
  \<open>can_spawn\<close> is its condition and \<open>spawn_one\<close> its body.  Every pass pushes one
  particle, so under a finite cap the loop ends.  Under an infinite cap it need not end (the
  subtraction does not lower an infinite timer), so the loop returns an optional result:
  \<open>None\<close> stands for a loop that does not return.
\<close>

definition can_spawn :: "emitter \<Rightarrow> bool" where
  "can_spawn em =
    (num_gt (timer em) (num_div (Fin 1) (rate em))
     \<and> num_lt (array_length (particles em)) (maxParticles em))"

definition spawn_one :: "(nat \<Rightarrow> number) \<Rightarrow> emitter \<Rightarrow> nat \<Rightarrow> emitter" where
  "spawn_one rng em i =
    em\<lparr> timer := num_sub (timer em) (num_div (Fin 1) (rate em)),
        particles := particles em @ [new_particle rng i em] \<rparr>"

partial_function (option) spawn ::
  "(nat \<Rightarrow> number) \<Rightarrow> emitter \<Rightarrow> nat \<Rightarrow> (emitter \<times> nat) option" where
  "spawn rng em i =
    (if can_spawn em then spawn rng (spawn_one rng em i) (i + 3) else Some (em, i))"

text \<open>
  The callback of \<^verbatim>\<open>emitter.particles.filter\<close>: the particle ages, is dropped when its
  life is used up, and moves otherwise.  (The callback also computes the particle's size for
  the renderer; the value is not stored.)
\<close>

definition step_particle :: "number \<Rightarrow> particle \<Rightarrow> particle option" where
  "step_particle dt p =
    (let l = num_sub (life p) dt in
     if num_le l (Fin 0) then None
     else Some (p\<lparr> life := l,
                    p_position :=
                      \<lparr> vx = num_add (vx (p_position p)) (num_mul (vx (p_velocity p)) dt),
                        vy = num_add (vy (p_position p)) (num_mul (vy (p_velocity p)) dt),
                        vz = num_add (vz (p_position p)) (num_mul (vz (p_velocity p)) dt) \<rparr> \<rparr>))"

definition positions :: "particle list \<Rightarrow> number list" where
  "positions ps = concat (map (\<lambda>p. [vx (p_position p), vy (p_position p), vz (p_position p)]) ps)"

text \<open>
  The body of \<^verbatim>\<open>this.emitters.forEach\<close> in \<^verbatim>\<open>ParticleSystem.update\<close>, and the update
  itself; they return when the spawn loops do.
\<close>

definition update_emitter ::
  "number \<Rightarrow> (nat \<Rightarrow> number) \<Rightarrow> emitter \<Rightarrow> nat \<Rightarrow> (emitter \<times> nat) option" where
  "update_emitter dt rng em i =
    (if \<not> em_enabled em then Some (em, i)
     else
       case spawn rng (em\<lparr> timer := num_add (timer em) dt \<rparr>) i of
         None \<Rightarrow> None
       | Some (em1, i1) \<Rightarrow>
           let ps = List.map_filter (step_particle dt) (particles em1)
           in Some (em1\<lparr> particles := ps,
                         em_system := map_option (\<lambda>_. positions ps) (em_system em1) \<rparr>, i1))"

fun ParticleSystem_update ::
  "number \<Rightarrow> (nat \<Rightarrow> number) \<Rightarrow> emitter list \<Rightarrow> nat \<Rightarrow> (emitter list \<times> nat) option" where
  "ParticleSystem_update dt rng [] i = Some ([], i)"
| "ParticleSystem_update dt rng (em # ems) i =
    (case update_emitter dt rng em i of
       None \<Rightarrow> None
     | Some (em', i') \<Rightarrow>
         (case ParticleSystem_update dt rng ems i' of
            None \<Rightarrow> None
          | Some (ems', i'') \<Rightarrow> Some (em' # ems', i'')))"

text \<open>
  \<^verbatim>\<open>createEmitter(options)\<close>: every absent or falsy option takes its default
  (\<^verbatim>\<open>options.rate || 10\<close>), so a rate of zero is replaced by 10 at creation.  The colour
  and opacity options only configure the renderer's material and are left out.  The new
  emitter is appended to the list of emitters.
\<close>

record emitter_options =
  opt_position :: "vec3 option"
  opt_rate :: "number option"
  opt_lifetime :: "number option"
  opt_velocity :: "vec3 option"
  opt_velocityVariance :: "vec3 option"
  opt_size :: "number option"
  opt_sizeEnd :: "number option"
  opt_maxParticles :: "number option"

definition vec_or :: "vec3 option \<Rightarrow> vec3 \<Rightarrow> vec3" where
  "vec_or v d = (case v of None \<Rightarrow> d | Some w \<Rightarrow> w)"

definition createEmitter :: "bool \<Rightarrow> emitter_options \<Rightarrow> emitter" where
  "createEmitter mode3d options =
    \<lparr> em_position = vec_or (opt_position options) \<lparr> vx = Fin 0, vy = Fin 0, vz = Fin 0 \<rparr>,
      rate = opt_or (opt_rate options) (Fin 10),
      lifetime = opt_or (opt_lifetime options) (Fin 2),
      em_velocity = vec_or (opt_velocity options) \<lparr> vx = Fin 0, vy = Fin 1, vz = Fin 0 \<rparr>,
      velocityVariance =
        vec_or (opt_velocityVariance options)
          \<lparr> vx = Fin (1 / 2), vy = Fin (1 / 2), vz = Fin (1 / 2) \<rparr>,
      em_size = opt_or (opt_size options) (lit (1 / 10)),
      sizeEnd = opt_or (opt_sizeEnd options) (Fin 0),
      particles = [],
      timer = Fin 0,
      maxParticles = opt_or (opt_maxParticles options) (Fin 1000),
      em_enabled = True,
      em_system = (if mode3d then Some [] else None) \<rparr>"

text \<open>
  The pool invariant: an emitter holds at most \<open>maxParticles\<close> live particles.  A cap is
  whole when it is a non-negative integer.
\<close>

definition within_cap :: "emitter \<Rightarrow> bool" where
  "within_cap em = num_le (array_length (particles em)) (maxParticles em)"

fun whole :: "number \<Rightarrow> bool" where
  "whole (Fin q) = (0 \<le> q \<and> of_int \<lfloor>q\<rfloor> = q)"
| "whole NZero = True"
| "whole _ = False"

section \<open>TweenSystem\<close>

text \<open>
  A tween animates properties of a target object.  Objects are property bags; reading an
  absent property gives \<^verbatim>\<open>undefined\<close>, which arithmetic turns into NaN.  Targets are shared
  and mutated in place, so they live in a store indexed by reference.  The callbacks
  \<^verbatim>\<open>onUpdate\<close> and \<^verbatim>\<open>onComplete\<close> are user code: a callback is known by its name and every
  invocation is recorded, in order, with its arguments.
\<close>

type_synonym obj = "string \<rightharpoonup> number"

type_synonym store = "nat \<Rightarrow> obj"

definition rd :: "obj \<Rightarrow> string \<Rightarrow> number" where
  "rd ob k = (case ob k of None \<Rightarrow> NaN | Some v \<Rightarrow> v)"

datatype call = OnUpdate nat nat number | OnComplete nat nat

record tween =
  target :: nat
  startValues :: obj
  endValues :: "(string \<times> number) list"
  duration :: number
  elapsed :: number
  easing :: "number \<Rightarrow> number"
  onUpdate :: "nat option"
  onComplete :: "nat option"
  delay :: number
  active :: bool

definition easeLinear :: "number \<Rightarrow> number" where
  "easeLinear t = t"

definition easeInQuad :: "number \<Rightarrow> number" where
  "easeInQuad t = num_mul t t"

definition easeOutQuad :: "number \<Rightarrow> number" where
  "easeOutQuad t = num_mul t (num_sub (Fin 2) t)"

definition easeInOutQuad :: "number \<Rightarrow> number" where
  "easeInOutQuad t =
    (if num_lt t (Fin (1 / 2)) then num_mul (num_mul (Fin 2) t) t
     else num_add (Fin (- 1)) (num_mul (num_sub (Fin 4) (num_mul (Fin 2) t)) t))"

definition easeInCubic :: "number \<Rightarrow> number" where
  "easeInCubic t = num_mul (num_mul t t) t"

definition easeOutCubic :: "number \<Rightarrow> number" where
  "easeOutCubic t =
    (let t1 = num_sub t (Fin 1) in num_add (num_mul (num_mul t1 t1) t1) (Fin 1))"

definition easeInOutCubic :: "number \<Rightarrow> number" where
  "easeInOutCubic t =
    (if num_lt t (Fin (1 / 2)) then num_mul (num_mul (num_mul (Fin 4) t) t) t
     else num_add
            (num_mul (num_mul (num_sub t (Fin 1)) (num_sub (num_mul (Fin 2) t) (Fin 2)))
               (num_sub (num_mul (Fin 2) t) (Fin 2)))
            (Fin 1))"

record tween_options =
  opt_easing :: "(number \<Rightarrow> number) option"
  opt_onUpdate :: "nat option"
  opt_onComplete :: "nat option"
  opt_delay :: "number option"

text \<open>
  \<^verbatim>\<open>to(target, props, duration, options)\<close>: the start values are read from the target once,
  here.  The new tween is pushed on the list of tweens.
\<close>

definition capture :: "obj \<Rightarrow> (string \<times> number) list \<Rightarrow> obj" where
  "capture tgt props = (\<lambda>k. if k \<in> set (map fst props) then tgt k else None)"

definition new_tween ::
  "store \<Rightarrow> nat \<Rightarrow> (string \<times> number) list \<Rightarrow> number \<Rightarrow> tween_options \<Rightarrow> tween" where
  "new_tween h tgt props d options =
    \<lparr> target = tgt,
      startValues = capture (h tgt) props,
      endValues = props,
      duration = d,
      elapsed = Fin 0,
      easing = (case opt_easing options of None \<Rightarrow> easeLinear | Some f \<Rightarrow> f),
      onUpdate = opt_onUpdate options,
      onComplete = opt_onComplete options,
      delay = opt_or (opt_delay options) (Fin 0),
      active = True \<rparr>"

definition TweenSystem_to ::
  "tween list \<Rightarrow> store \<Rightarrow> nat \<Rightarrow> (string \<times> number) list \<Rightarrow> number \<Rightarrow> tween_options
    \<Rightarrow> tween list" where
  "TweenSystem_to tweens h tgt props d options = tweens @ [new_tween h tgt props d options]"

text \<open>
  The loop over \<^verbatim>\<open>Object.keys(tween.endValues)\<close>:
  \<^verbatim>\<open>tween.target[key] = start + (end - start) * easedT\<close>.
\<close>

fun write_props :: "obj \<Rightarrow> obj \<Rightarrow> number \<Rightarrow> (string \<times> number) list \<Rightarrow> obj" where
  "write_props tgt st e [] = tgt"
| "write_props tgt st e ((k, fin) # kvs) =
    write_props (tgt(k \<mapsto> num_add (rd st k) (num_mul (num_sub fin (rd st k)) e))) st e kvs"

definition calls_of :: "nat option \<Rightarrow> (nat \<Rightarrow> call) \<Rightarrow> call list" where
  "calls_of cb mk = (case cb of None \<Rightarrow> [] | Some c \<Rightarrow> [mk c])"

text \<open>
  The callback of \<^verbatim>\<open>this.tweens.filter\<close>: the tween as the callback leaves it, whether it
  is kept, the store and the callbacks invoked.
\<close>

definition step_tween :: "number \<Rightarrow> tween \<Rightarrow> store \<Rightarrow> tween \<times> bool \<times> store \<times> call list" where
  "step_tween dt tw h =
    (if \<not> active tw then (tw, False, h, [])
     else if num_gt (delay tw) (Fin 0) then (tw\<lparr> delay := num_sub (delay tw) dt \<rparr>, True, h, [])
     else
       let e = num_add (elapsed tw) dt;
           t = Math_min (num_div e (duration tw)) (Fin 1);
           easedT = easing tw t;
           h' = h(target tw := write_props (h (target tw)) (startValues tw) easedT (endValues tw));
           cs = calls_of (onUpdate tw) (\<lambda>c. OnUpdate c (target tw) easedT)
       in if num_ge t (Fin 1)
          then (tw\<lparr> elapsed := e \<rparr>, False, h',
                cs @ calls_of (onComplete tw) (\<lambda>c. OnComplete c (target tw)))
          else (tw\<lparr> elapsed := e \<rparr>, True, h', cs))"

fun TweenSystem_update ::
  "number \<Rightarrow> tween list \<Rightarrow> store \<Rightarrow> tween list \<times> store \<times> call list" where
  "TweenSystem_update dt [] h = ([], h, [])"
| "TweenSystem_update dt (tw # tws) h =
    (let (tw', keep, h', cs) = step_tween dt tw h;
         (tws', h'', cs') = TweenSystem_update dt tws h'
     in ((if keep then tw' # tws' else tws'), h'', cs @ cs'))"

text \<open>Several updates in a row, one per frame, with all the callbacks they invoke.\<close>

fun TweenSystem_updates ::
  "number list \<Rightarrow> tween list \<Rightarrow> store \<Rightarrow> tween list \<times> store \<times> call list" where
  "TweenSystem_updates [] tws h = (tws, h, [])"
| "TweenSystem_updates (dt # dts) tws h =
    (let (tws', h', cs) = TweenSystem_update dt tws h;
         (tws'', h'', cs') = TweenSystem_updates dts tws' h'
     in (tws'', h'', cs @ cs'))"

section \<open>Entity\<close>

text \<open>
  An entity is an object, shared by the registry, the render lists and the physics bodies,
  so entities live in a store indexed by reference.  Its position is kept by its mesh when it
  has one (3D) and in its own fields \<open>x\<close>, \<open>y\<close> otherwise (2D).  A script is an object with
  optional \<^verbatim>\<open>init\<close> and \<^verbatim>\<open>update\<close> callbacks, known by their names.
\<close>

record script =
  script_init :: "nat option"
  script_update :: "nat option"

record entity =
  name :: string
  mesh :: "vec3 option"
  ent_enabled :: bool
  visible :: bool
  scripts :: "script list"
  tags :: "string list"
  ent_x :: number
  ent_y :: number

type_synonym entities = "nat \<Rightarrow> entity"

text \<open>
  \<^verbatim>\<open>entity.position.get()\<close> and \<^verbatim>\<open>entity.position.set(pos)\<close>.  Without a mesh the position
  object has no \<open>z\<close>: it reads as \<^verbatim>\<open>undefined\<close>, which every use below (arithmetic,
  comparison, \<^verbatim>\<open>||\<close>) treats as NaN.  The setter stores \<^verbatim>\<open>pos.x || 0\<close>.
\<close>

definition position_get :: "entity \<Rightarrow> vec3" where
  "position_get e =
    (case mesh e of
       Some p \<Rightarrow> \<lparr> vx = vx p, vy = vy p, vz = vz p \<rparr>
     | None \<Rightarrow> \<lparr> vx = ent_x e, vy = ent_y e, vz = NaN \<rparr>)"

definition position_set :: "vec3 \<Rightarrow> entity \<Rightarrow> entity" where
  "position_set pos e =
    (case mesh e of
       Some p \<Rightarrow>
         e\<lparr> mesh := Some \<lparr> vx = or_default (vx pos) (Fin 0), vy = or_default (vy pos) (Fin 0),
                            vz = or_default (vz pos) (Fin 0) \<rparr> \<rparr>
     | None \<Rightarrow> e\<lparr> ent_x := or_default (vx pos) (Fin 0), ent_y := or_default (vy pos) (Fin 0) \<rparr>)"

section \<open>PhysicsSystem\<close>

text \<open>
  A body refers to its entity.  Its bounds, when declared, are an object whose properties
  \<open>minX\<close>, \<open>maxX\<close>, \<open>minZ\<close>, \<open>maxZ\<close> the step reads.
\<close>

record body =
  body_entity :: nat
  velocity :: vec3
  acceleration :: vec3
  mass :: number
  useGravity :: bool
  isStatic :: bool
  restitution :: number
  friction :: number
  drag :: number
  collider :: string
  radius :: number
  bounds :: "obj option"

record body_config =
  cfg_velocity :: "vec3 option"
  cfg_acceleration :: "vec3 option"
  cfg_mass :: "number option"
  cfg_useGravity :: "bool option"
  cfg_isStatic :: "bool option"
  cfg_restitution :: "number option"
  cfg_friction :: "number option"
  cfg_drag :: "number option"
  cfg_collider :: "string option"
  cfg_radius :: "number option"
  cfg_bounds :: "obj option"

record physics =
  gravity :: number
  bodies :: "body list"
  ph_enabled :: bool

datatype payload = NoData | CollisionData body body | EntityData nat | ResizeData number number

definition new_body :: "nat \<Rightarrow> body_config \<Rightarrow> body" where
  "new_body e config =
    \<lparr> body_entity = e,
      velocity = vec_or (cfg_velocity config) \<lparr> vx = Fin 0, vy = Fin 0, vz = Fin 0 \<rparr>,
      acceleration = vec_or (cfg_acceleration config) \<lparr> vx = Fin 0, vy = Fin 0, vz = Fin 0 \<rparr>,
      mass = opt_or (cfg_mass config) (Fin 1),
      useGravity = (case cfg_useGravity config of None \<Rightarrow> True | Some g \<Rightarrow> g),
      isStatic = (case cfg_isStatic config of None \<Rightarrow> False | Some s \<Rightarrow> s),
      restitution = opt_or (cfg_restitution config) (Fin (1 / 2)),
      friction = opt_or (cfg_friction config) (Fin (1 / 2)),
      drag = opt_or (cfg_drag config) (lit (1 / 100)),
      collider = (case cfg_collider config of None \<Rightarrow> ''sphere''
                  | Some c \<Rightarrow> if c = [] then ''sphere'' else c),
      radius = opt_or (cfg_radius config) (Fin 1),
      bounds = cfg_bounds config \<rparr>"

definition new_physics :: physics where
  "new_physics = \<lparr> gravity = lit (- (98 / 10)), bodies = [], ph_enabled = True \<rparr>"

definition addBody :: "nat \<Rightarrow> body_config \<Rightarrow> physics \<Rightarrow> physics" where
  "addBody e config ph = ph\<lparr> bodies := bodies ph @ [new_body e config] \<rparr>"

definition removeBody :: "nat \<Rightarrow> physics \<Rightarrow> physics" where
  "removeBody e ph = ph\<lparr> bodies := filter (\<lambda>b. body_entity b \<noteq> e) (bodies ph) \<rparr>"

definition setGravity :: "number \<Rightarrow> physics \<Rightarrow> physics" where
  "setGravity g ph = ph\<lparr> gravity := g \<rparr>"

text \<open>\<^verbatim>\<open>applyForce(body, force)\<close>: \<^verbatim>\<open>body.acceleration.x += force.x / body.mass\<close>, and so on.\<close>

definition applyForce :: "body \<Rightarrow> vec3 \<Rightarrow> body" where
  "applyForce b force =
    b\<lparr> acceleration :=
        \<lparr> vx = num_add (vx (acceleration b)) (num_div (vx force) (mass b)),
          vy = num_add (vy (acceleration b)) (num_div (vy force) (mass b)),
          vz = num_add (vz (acceleration b)) (num_div (vz force) (mass b)) \<rparr> \<rparr>"

text \<open>The steps of the loop body of \<^verbatim>\<open>update\<close>, in the order of the source.\<close>

definition apply_gravity :: "number \<Rightarrow> body \<Rightarrow> body" where
  "apply_gravity g b =
    (if useGravity b then b\<lparr> acceleration := (acceleration b)\<lparr> vy := g \<rparr> \<rparr> else b)"

definition update_velocity :: "number \<Rightarrow> body \<Rightarrow> body" where
  "update_velocity dt b =
    b\<lparr> velocity :=
        \<lparr> vx = num_add (vx (velocity b)) (num_mul (vx (acceleration b)) dt),
          vy = num_add (vy (velocity b)) (num_mul (vy (acceleration b)) dt),
          vz = num_add (vz (velocity b)) (num_mul (vz (acceleration b)) dt) \<rparr> \<rparr>"

definition apply_drag :: "body \<Rightarrow> body" where
  "apply_drag b =
    b\<lparr> velocity :=
        \<lparr> vx = num_mul (vx (velocity b)) (num_sub (Fin 1) (drag b)),
          vy = num_mul (vy (velocity b)) (num_sub (Fin 1) (drag b)),
          vz = num_mul (vz (velocity b)) (num_sub (Fin 1) (drag b)) \<rparr> \<rparr>"

definition integrate :: "number \<Rightarrow> number \<Rightarrow> body \<Rightarrow> body" where
  "integrate dt g b = apply_drag (update_velocity dt (apply_gravity g b))"

definition update_position :: "number \<Rightarrow> body \<Rightarrow> vec3 \<Rightarrow> vec3" where
  "update_position dt b pos =
    \<lparr> vx = num_add (vx pos) (num_mul (vx (velocity b)) dt),
      vy = num_add (vy pos) (num_mul (vy (velocity b)) dt),
      vz = num_add (vz pos) (num_mul (vz (velocity b)) dt) \<rparr>"

definition store_position :: "body \<Rightarrow> vec3 \<Rightarrow> entities \<Rightarrow> entities" where
  "store_position b pos h = h(body_entity b := position_set pos (h (body_entity b)))"

definition ground_collision :: "body \<times> vec3 \<times> entities \<Rightarrow> body \<times> vec3 \<times> entities" where
  "ground_collision s =
    (case s of (b, pos, h) \<Rightarrow>
       if num_lt (vy pos) (Fin 0)
       then let pos' = pos\<lparr> vy := Fin 0 \<rparr>;
                b' = b\<lparr> velocity :=
                        \<lparr> vx = num_mul (vx (velocity b)) (num_sub (Fin 1) (friction b)),
                          vy = num_mul (num_neg (vy (velocity b))) (restitution b),
                          vz = num_mul (vz (velocity b)) (num_sub (Fin 1) (friction b)) \<rparr> \<rparr>
            in (b', pos', store_position b pos' h)
       else (b, pos, h))"

text \<open>
  One line of the bounds check, for one axis and one side:
  \<^verbatim>\<open>if (pos.x < body.bounds.minX) { pos.x = body.bounds.minX; body.velocity.x *= -body.restitution; }\<close>
  acts on the coordinate and the velocity component of that axis.
\<close>

definition hit_min :: "number \<Rightarrow> number \<Rightarrow> number \<times> number \<Rightarrow> number \<times> number" where
  "hit_min bound r pv =
    (case pv of (p, v) \<Rightarrow> if num_lt p bound then (bound, num_mul v (num_neg r)) else (p, v))"

definition hit_max :: "number \<Rightarrow> number \<Rightarrow> number \<times> number \<Rightarrow> number \<times> number" where
  "hit_max bound r pv =
    (case pv of (p, v) \<Rightarrow> if num_gt p bound then (bound, num_mul v (num_neg r)) else (p, v))"

definition bounds_collision :: "body \<times> vec3 \<times> entities \<Rightarrow> body \<times> vec3 \<times> entities" where
  "bounds_collision s =
    (case s of (b, pos, h) \<Rightarrow>
       case bounds b of
         None \<Rightarrow> (b, pos, h)
       | Some bd \<Rightarrow>
           let (px, wx) = hit_max (rd bd ''maxX'') (restitution b)
                            (hit_min (rd bd ''minX'') (restitution b) (vx pos, vx (velocity b)));
               (pz, wz) = hit_max (rd bd ''maxZ'') (restitution b)
                            (hit_min (rd bd ''minZ'') (restitution b) (vz pos, vz (velocity b)));
               pos' = pos\<lparr> vx := px, vz := pz \<rparr>;
               b' = b\<lparr> velocity := (velocity b)\<lparr> vx := wx, vz := wz \<rparr> \<rparr>
           in (b', pos', store_position b pos' h))"

definition reset_acceleration :: "body \<Rightarrow> body" where
  "reset_acceleration b = b\<lparr> acceleration := \<lparr> vx = Fin 0, vy = Fin 0, vz = Fin 0 \<rparr> \<rparr>"

text \<open>
  The state of a dynamic body when the bounds check begins: gravity, velocity, drag and
  position are done and the ground contact is resolved.
\<close>

definition before_bounds :: "number \<Rightarrow> number \<Rightarrow> body \<Rightarrow> entities \<Rightarrow> body \<times> vec3 \<times> entities" where
  "before_bounds dt g b h =
    (let b3 = integrate dt g b;
         pos = update_position dt b3 (position_get (h (body_entity b)))
     in ground_collision (b3, pos, store_position b pos h))"

text \<open>The loop body of \<^verbatim>\<open>this.bodies.forEach\<close>.\<close>

definition update_body :: "number \<Rightarrow> number \<Rightarrow> body \<Rightarrow> entities \<Rightarrow> body \<times> entities" where
  "update_body dt g b h =
    (if isStatic b then (b, h)
     else case bounds_collision (before_bounds dt g b h) of
            (b5, pos5, h5) \<Rightarrow> (reset_acceleration b5, h5))"

fun update_bodies :: "number \<Rightarrow> number \<Rightarrow> body list \<Rightarrow> entities \<Rightarrow> body list \<times> entities" where
  "update_bodies dt g [] h = ([], h)"
| "update_bodies dt g (b # bs) h =
    (let (b', h') = update_body dt g b h;
         (bs', h'') = update_bodies dt g bs h'
     in (b' # bs', h''))"

text \<open>
  \<^verbatim>\<open>checkCollision(bodyA, bodyB)\<close>.  Both positions are read before either is written.  The
  published event is returned with the store.
\<close>

definition push_apart :: "(number \<Rightarrow> number \<Rightarrow> number) \<Rightarrow> vec3 \<Rightarrow> vec3 \<Rightarrow> number \<Rightarrow> vec3" where
  "push_apart op pos n overlap =
    \<lparr> vx = op (vx pos) (num_mul (num_mul (vx n) overlap) (Fin (1 / 2))),
      vy = op (vy pos) (num_mul (num_mul (vy n) overlap) (Fin (1 / 2))),
      vz = op (vz pos) (num_mul (num_mul (vz n) overlap) (Fin (1 / 2))) \<rparr>"

definition checkCollision ::
  "body \<Rightarrow> body \<Rightarrow> entities \<Rightarrow> entities \<times> (string \<times> payload) list" where
  "checkCollision bodyA bodyB h =
    (let posA = position_get (h (body_entity bodyA));
         posB = position_get (h (body_entity bodyB));
         dx = num_sub (vx posB) (vx posA);
         dy = num_sub (vy posB) (vy posA);
         dz = num_sub (vz posB) (vz posA);
         distance = Math_sqrt (num_add (num_add (num_mul dx dx) (num_mul dy dy)) (num_mul dz dz));
         minDist = num_add (radius bodyA) (radius bodyB)
     in if num_lt distance minDist \<and> num_gt distance (Fin 0)
        then let n = \<lparr> vx = num_div dx distance, vy = num_div dy distance,
                        vz = num_div dz distance \<rparr>;
                 overlap = num_sub minDist distance;
                 h1 = (if \<not> isStatic bodyA
                       then store_position bodyA (push_apart num_sub posA n overlap) h else h);
                 h2 = (if \<not> isStatic bodyB
                       then store_position bodyB (push_apart num_add posB n overlap) h1 else h1)
             in (h2, [(''collision'', CollisionData bodyA bodyB)])
        else (h, []))"

text \<open>The pairs \<open>(bodies[i], bodies[j])\<close>, \<open>i < j\<close>, in the order of the two nested loops.\<close>

fun pairs :: "'a list \<Rightarrow> ('a \<times> 'a) list" where
  "pairs [] = []"
| "pairs (a # as) = map (Pair a) as @ pairs as"

fun check_all ::
  "(body \<times> body) list \<Rightarrow> entities \<Rightarrow> entities \<times> (string \<times> payload) list" where
  "check_all [] h = (h, [])"
| "check_all ((a, b) # ps) h =
    (let (h', ev) = checkCollision a b h;
         (h'', evs) = check_all ps h'
     in (h'', ev @ evs))"

definition PhysicsSystem_update ::
  "number \<Rightarrow> physics \<Rightarrow> entities \<Rightarrow> physics \<times> entities \<times> (string \<times> payload) list" where
  "PhysicsSystem_update dt ph h =
    (if \<not> ph_enabled ph then (ph, h, [])
     else
       let (bs, h1) = update_bodies dt (gravity ph) (bodies ph) h;
           (h2, evs) = check_all (pairs bs) h1
       in (ph\<lparr> bodies := bs \<rparr>, h2, evs))"

text \<open>
  Two positions coincide when each coordinate of one is the same value as that coordinate of
  the other, or both are a zero.
\<close>

definition same_coord :: "number \<Rightarrow> number \<Rightarrow> bool" where
  "same_coord a b = (a = b \<or> (is_zero a \<and> is_zero b))"

definition coincident :: "vec3 \<Rightarrow> vec3 \<Rightarrow> bool" where
  "coincident p q = (same_coord (vx p) (vx q) \<and> same_coord (vy p) (vy q) \<and> same_coord (vz p) (vz q))"

section \<open>EventEmitter\<close>

text \<open>
  The subscription table maps an event name to its array of callbacks.  Callbacks are
  compared by identity: a user function is known by its name, and each call of
  \<^verbatim>\<open>once\<close> creates a fresh wrapper closure around the callback it is given.  What a user
  function does when invoked is given by \<open>run\<close>; it acts on the emitter together with the
  rest of the program's state \<open>world\<close>, so that a callback can subscribe and unsubscribe.
\<close>

datatype callback = Fn nat | Wrapper nat string callback

record 'w emitter_state =
  events :: "string \<rightharpoonup> callback list"
  fresh :: nat
  world :: 'w

definition on :: "string \<Rightarrow> callback \<Rightarrow> 'w emitter_state \<Rightarrow> 'w emitter_state" where
  "on event cb s =
    (case events s event of
       None \<Rightarrow> s\<lparr> events := (events s)(event \<mapsto> [cb]) \<rparr>
     | Some cbs \<Rightarrow> s\<lparr> events := (events s)(event \<mapsto> cbs @ [cb]) \<rparr>)"

text \<open>\<^verbatim>\<open>callbacks.splice(callbacks.indexOf(callback), 1)\<close> removes the first occurrence.\<close>

definition off :: "string \<Rightarrow> callback \<Rightarrow> 'w emitter_state \<Rightarrow> 'w emitter_state" where
  "off event cb s =
    (case events s event of
       None \<Rightarrow> s
     | Some cbs \<Rightarrow> s\<lparr> events := (events s)(event \<mapsto> remove1 cb cbs) \<rparr>)"

text \<open>
  Invoking a callback.  The wrapper made by \<^verbatim>\<open>once\<close> is
  \<^verbatim>\<open>(data) => { callback(data); this.off(event, wrapper); }\<close>.
\<close>

fun invoke ::
  "(nat \<Rightarrow> payload \<Rightarrow> 'w emitter_state \<Rightarrow> 'w emitter_state) \<Rightarrow> callback \<Rightarrow> payload
    \<Rightarrow> 'w emitter_state \<Rightarrow> 'w emitter_state" where
  "invoke run (Fn n) data s = run n data s"
| "invoke run (Wrapper i event cb) data s = off event (Wrapper i event cb) (invoke run cb data s)"

definition once :: "string \<Rightarrow> callback \<Rightarrow> 'w emitter_state \<Rightarrow> 'w emitter_state" where
  "once event cb s = on event (Wrapper (fresh s) event cb) (s\<lparr> fresh := fresh s + 1 \<rparr>)"

text \<open>
  \<^verbatim>\<open>this.events.get(event).forEach(callback => callback(data))\<close>.  \<^verbatim>\<open>forEach\<close> fixes the
  number of indices to visit when it starts and reads the array, as it is then, at each
  index; an index beyond the end of the array is passed over.  The array of an event stays the
  one stored in the table: \<^verbatim>\<open>on\<close> and \<^verbatim>\<open>off\<close> change it in place.
\<close>

function forEach_from ::
  "(nat \<Rightarrow> payload \<Rightarrow> 'w emitter_state \<Rightarrow> 'w emitter_state) \<Rightarrow> string \<Rightarrow> payload
    \<Rightarrow> nat \<Rightarrow> nat \<Rightarrow> 'w emitter_state \<Rightarrow> 'w emitter_state" where
  "forEach_from run event data len k s =
    (if k < len
     then forEach_from run event data len (Suc k)
            (case events s event of
               None \<Rightarrow> s
             | Some cbs \<Rightarrow> if k < length cbs then invoke run (cbs ! k) data s else s)
     else s)"
  by pat_completeness auto
termination
  by (relation "measure (\<lambda>(run, event, data, len, k, s). len - k)") auto

declare forEach_from.simps [simp del]

definition emit ::
  "(nat \<Rightarrow> payload \<Rightarrow> 'w emitter_state \<Rightarrow> 'w emitter_state) \<Rightarrow> string \<Rightarrow> payload
    \<Rightarrow> 'w emitter_state \<Rightarrow> 'w emitter_state" where
  "emit run event data s =
    (case events s event of
       None \<Rightarrow> s
     | Some cbs \<Rightarrow> forEach_from run event data (length cbs) 0 s)"

text \<open>
  An instrumented program: the world is the list of the functions invoked so far.  Every
  function records its own name; with \<open>leaving\<close>, function 1 then unsubscribes itself from
  \<open>foo\<close>.
\<close>

definition record_call :: "nat \<Rightarrow> nat list emitter_state \<Rightarrow> nat list emitter_state" where
  "record_call n s = s\<lparr> world := world s @ [n] \<rparr>"

definition recording :: "nat \<Rightarrow> payload \<Rightarrow> nat list emitter_state \<Rightarrow> nat list emitter_state" where
  "recording n data s = record_call n s"

definition leaving :: "nat \<Rightarrow> payload \<Rightarrow> nat list emitter_state \<Rightarrow> nat list emitter_state" where
  "leaving n data s =
    (if n = 1 then off ''foo'' (Fn 1) (record_call n s) else record_call n s)"

definition new_emitter :: "nat list emitter_state" where
  "new_emitter = \<lparr> events = Map.empty, fresh = 0, world = [] \<rparr>"

section \<open>Cubie: the entity registry and the frame\<close>

text \<open>
  The registry \<^verbatim>\<open>this.entities\<close> and the table of systems \<^verbatim>\<open>this.systems\<close> are \<^verbatim>\<open>Map\<close>s:
  they iterate in the order in which their keys were first inserted, and setting an existing
  key replaces its value in place.
\<close>

fun Map_set :: "'k \<Rightarrow> 'v \<Rightarrow> ('k \<times> 'v) list \<Rightarrow> ('k \<times> 'v) list" where
  "Map_set k v [] = [(k, v)]"
| "Map_set k v ((k', v') # kvs) = (if k' = k then (k, v) # kvs else (k', v') # Map_set k v kvs)"

definition Map_get :: "('k \<times> 'v) list \<Rightarrow> 'k \<Rightarrow> 'v option" where
  "Map_get kvs k = map_of kvs k"

definition Map_delete :: "'k \<Rightarrow> ('k \<times> 'v) list \<Rightarrow> ('k \<times> 'v) list" where
  "Map_delete k kvs = filter (\<lambda>kv. fst kv \<noteq> k) kvs"

record system =
  sys_enabled :: "bool option"
  sys_init :: "nat option"
  sys_update :: "nat option"
  sys_destroy :: "nat option"

record entity_config =
  ecfg_mesh :: "vec3 option"
  ecfg_enabled :: "bool option"
  ecfg_visible :: "bool option"
  ecfg_x :: "number option"
  ecfg_y :: "number option"
  ecfg_layer :: "string option"

text \<open>
  The engine.  \<open>heap\<close> holds the entity objects and \<open>next_ref\<close> is the next unused reference;
  \<open>scene\<close> lists the entities whose mesh was added to the 3D scene and \<open>layers\<close> the 2D render
  lists.  \<open>published\<close> records the events the engine has emitted, in order.
\<close>

record engine =
  mode :: string
  time :: number
  deltaTime :: number
  frameCount :: nat
  isRunning :: bool
  isPaused :: bool
  heap :: entities
  next_ref :: nat
  registry :: "(string \<times> nat) list"
  systems :: "(string \<times> system) list"
  layers :: "(string \<times> nat list) list"
  scene :: "nat list"
  hooks_preUpdate :: "nat list"
  hooks_postUpdate :: "nat list"
  hooks_preRender :: "nat list"
  hooks_postRender :: "nat list"
  published :: "(string \<times> payload) list"

text \<open>The constructor of \<^verbatim>\<open>Entity\<close>, for the fields modelled here.\<close>

definition new_entity :: "string \<Rightarrow> entity_config \<Rightarrow> entity" where
  "new_entity n config =
    \<lparr> name = n,
      mesh = ecfg_mesh config,
      ent_enabled = (case ecfg_enabled config of None \<Rightarrow> True | Some b \<Rightarrow> b),
      visible = (case ecfg_visible config of None \<Rightarrow> True | Some b \<Rightarrow> b),
      scripts = [],
      tags = [],
      ent_x = opt_or (ecfg_x config) (Fin 0),
      ent_y = opt_or (ecfg_y config) (Fin 0) \<rparr>"

definition layer_push :: "string \<Rightarrow> nat \<Rightarrow> (string \<times> nat list) list \<Rightarrow> (string \<times> nat list) list" where
  "layer_push l r ls =
    (case Map_get ls l of
       None \<Rightarrow> Map_set l [r] ls
     | Some rs \<Rightarrow> Map_set l (rs @ [r]) ls)"

text \<open>
  \<^verbatim>\<open>entity.create(name, config)\<close>.  The source has no check of the name and no failing
  branch: the new entity is stored under the name whether or not the name is taken.
\<close>

definition create :: "string \<Rightarrow> entity_config \<Rightarrow> engine \<Rightarrow> nat \<times> engine" where
  "create n config eng =
    (let r = next_ref eng;
         e = new_entity n config;
         eng1 = eng\<lparr> heap := (heap eng)(r := e), next_ref := r + 1,
                     registry := Map_set n r (registry eng) \<rparr>;
         eng2 = (if mode eng = ''3d'' \<and> mesh e \<noteq> None then eng1\<lparr> scene := scene eng1 @ [r] \<rparr>
                 else if mode eng = ''2d''
                 then eng1\<lparr> layers :=
                        layer_push (case ecfg_layer config of None \<Rightarrow> ''main''
                                    | Some l \<Rightarrow> if l = [] then ''main'' else l) r (layers eng1) \<rparr>
                 else eng1)
     in (r, eng2\<lparr> published := published eng2 @ [(''entity:create'', EntityData r)] \<rparr>))"

definition get_entity :: "string \<Rightarrow> engine \<Rightarrow> nat option" where
  "get_entity n eng = Map_get (registry eng) n"

definition remove_entity :: "string \<Rightarrow> engine \<Rightarrow> engine" where
  "remove_entity n eng =
    (case Map_get (registry eng) n of
       None \<Rightarrow> eng
     | Some r \<Rightarrow>
         let eng1 = (if mode eng = ''3d'' \<and> mesh (heap eng r) \<noteq> None
                     then eng\<lparr> scene := remove1 r (scene eng) \<rparr>
                     else if mode eng = ''2d''
                     then eng\<lparr> layers := map (\<lambda>(l, rs). (l, remove1 r rs)) (layers eng) \<rparr>
                     else eng)
         in eng1\<lparr> registry := Map_delete n (registry eng1),
                  published := published eng1 @ [(''entity:remove'', EntityData r)] \<rparr>)"

text \<open>
  One frame, as the sequence of the calls it makes.  Hooks, systems and scripts are user
  code, known by their names; what the steps of the subsystems do is the matter of the
  sections above.
\<close>

datatype step =
    PreUpdateHook nat number
  | InputUpdate number
  | PhysicsUpdate number
  | ParticlesUpdate number
  | TweensUpdate number
  | SystemUpdate nat number
  | ScriptUpdate nat number nat
  | PostUpdateHook nat number
  | PreRenderHook nat
  | Render
  | PostRenderHook nat
  | PerformanceUpdate
  | SystemInit nat
  | SystemDestroy nat
  | ScriptInit nat nat

text \<open>
  The scheduler's tables are filled through \<^verbatim>\<open>system.add\<close>, \<^verbatim>\<open>hook.preUpdate\<close> and the like,
  and an entity's scripts through \<^verbatim>\<open>addScript\<close>; each list is in the order of the calls.
  A system without an \<^verbatim>\<open>enabled\<close> property is enabled when added.
\<close>

definition system_add :: "string \<Rightarrow> system \<Rightarrow> engine \<Rightarrow> engine \<times> step list" where
  "system_add n s eng =
    (eng\<lparr> systems :=
        Map_set n (s\<lparr> sys_enabled := Some (case sys_enabled s of None \<Rightarrow> True | Some b \<Rightarrow> b) \<rparr>)
          (systems eng) \<rparr>,
     case sys_init s of None \<Rightarrow> [] | Some f \<Rightarrow> [SystemInit f])"

definition system_remove :: "string \<Rightarrow> engine \<Rightarrow> engine \<times> step list" where
  "system_remove n eng =
    (eng\<lparr> systems := Map_delete n (systems eng) \<rparr>,
     case Map_get (systems eng) n of
       None \<Rightarrow> []
     | Some s \<Rightarrow> (case sys_destroy s of None \<Rightarrow> [] | Some f \<Rightarrow> [SystemDestroy f]))"

definition system_set_enabled :: "bool \<Rightarrow> string \<Rightarrow> engine \<Rightarrow> engine" where
  "system_set_enabled b n eng =
    (case Map_get (systems eng) n of
       None \<Rightarrow> eng
     | Some s \<Rightarrow> eng\<lparr> systems := Map_set n (s\<lparr> sys_enabled := Some b \<rparr>) (systems eng) \<rparr>)"

definition system_enable :: "string \<Rightarrow> engine \<Rightarrow> engine" where
  "system_enable = system_set_enabled True"

definition system_disable :: "string \<Rightarrow> engine \<Rightarrow> engine" where
  "system_disable = system_set_enabled False"

definition hook_preUpdate :: "nat \<Rightarrow> engine \<Rightarrow> engine" where
  "hook_preUpdate fn eng = eng\<lparr> hooks_preUpdate := hooks_preUpdate eng @ [fn] \<rparr>"

definition hook_postUpdate :: "nat \<Rightarrow> engine \<Rightarrow> engine" where
  "hook_postUpdate fn eng = eng\<lparr> hooks_postUpdate := hooks_postUpdate eng @ [fn] \<rparr>"

definition hook_preRender :: "nat \<Rightarrow> engine \<Rightarrow> engine" where
  "hook_preRender fn eng = eng\<lparr> hooks_preRender := hooks_preRender eng @ [fn] \<rparr>"

definition hook_postRender :: "nat \<Rightarrow> engine \<Rightarrow> engine" where
  "hook_postRender fn eng = eng\<lparr> hooks_postRender := hooks_postRender eng @ [fn] \<rparr>"

definition addScript :: "nat \<Rightarrow> script \<Rightarrow> engine \<Rightarrow> engine \<times> step list" where
  "addScript r sc eng =
    (eng\<lparr> heap := (heap eng)(r := (heap eng r)\<lparr> scripts := scripts (heap eng r) @ [sc] \<rparr>) \<rparr>,
     case script_init sc of None \<Rightarrow> [] | Some f \<Rightarrow> [ScriptInit f r])"

text \<open>\<^verbatim>\<open>Entity.update(dt)\<close>: every script with an \<^verbatim>\<open>update\<close> gets \<^verbatim>\<open>update(dt, this)\<close>.\<close>

fun Entity_update :: "number \<Rightarrow> nat \<Rightarrow> script list \<Rightarrow> step list" where
  "Entity_update dt r [] = []"
| "Entity_update dt r (sc # scs) =
    (case script_update sc of None \<Rightarrow> [] | Some u \<Rightarrow> [ScriptUpdate u dt r])
    @ Entity_update dt r scs"

fun update_systems :: "number \<Rightarrow> (string \<times> system) list \<Rightarrow> step list" where
  "update_systems dt [] = []"
| "update_systems dt ((n, s) # ss) =
    (if sys_enabled s = Some True \<and> sys_update s \<noteq> None
     then [SystemUpdate (the (sys_update s)) dt] else [])
    @ update_systems dt ss"

fun update_entities :: "number \<Rightarrow> entities \<Rightarrow> (string \<times> nat) list \<Rightarrow> step list" where
  "update_entities dt h [] = []"
| "update_entities dt h ((n, r) # es) =
    (if ent_enabled (h r) then Entity_update dt r (scripts (h r)) else [])
    @ update_entities dt h es"

definition update :: "number \<Rightarrow> engine \<Rightarrow> step list" where
  "update dt eng =
    [InputUpdate dt] @ [PhysicsUpdate dt] @ [ParticlesUpdate dt] @ [TweensUpdate dt]
    @ update_systems dt (systems eng)
    @ update_entities dt (heap eng) (registry eng)"

text \<open>\<^verbatim>\<open>loop()\<close>, with the delta of the clock as \<open>dt\<close>: the engine after the frame and the calls made.\<close>

definition loop :: "number \<Rightarrow> engine \<Rightarrow> engine \<times> step list" where
  "loop dt eng =
    (if \<not> isRunning eng then (eng, [])
     else if isPaused eng then (eng, [])
     else
       (eng\<lparr> deltaTime := dt, time := num_add (time eng) dt, frameCount := frameCount eng + 1 \<rparr>,
        map (\<lambda>fn. PreUpdateHook fn dt) (hooks_preUpdate eng)
        @ update dt eng
        @ map (\<lambda>fn. PostUpdateHook fn dt) (hooks_postUpdate eng)
        @ map PreRenderHook (hooks_preRender eng)
        @ [Render]
        @ map PostRenderHook (hooks_postRender eng)
        @ [PerformanceUpdate]))"

text \<open>
  \<^verbatim>\<open>start()\<close> runs the first frame itself and then publishes \<open>start\<close>;
  \<^verbatim>\<open>stop()\<close>, \<^verbatim>\<open>pause()\<close> and \<^verbatim>\<open>resume()\<close> set the flags that \<^verbatim>\<open>loop()\<close> tests.
\<close>

definition publish :: "string \<Rightarrow> payload \<Rightarrow> engine \<Rightarrow> engine" where
  "publish event data eng = eng\<lparr> published := published eng @ [(event, data)] \<rparr>"

definition start :: "number \<Rightarrow> engine \<Rightarrow> engine \<times> step list" where
  "start dt eng =
    (if isRunning eng then (eng, [])
     else case loop dt (eng\<lparr> isRunning := True, isPaused := False \<rparr>) of
            (eng', calls) \<Rightarrow> (publish ''start'' NoData eng', calls))"

definition stop :: "engine \<Rightarrow> engine" where
  "stop eng = publish ''stop'' NoData (eng\<lparr> isRunning := False \<rparr>)"

definition pause :: "engine \<Rightarrow> engine" where
  "pause eng = publish ''pause'' NoData (eng\<lparr> isPaused := True \<rparr>)"

definition resume :: "engine \<Rightarrow> engine" where
  "resume eng = publish ''resume'' NoData (eng\<lparr> isPaused := False \<rparr>)"

text \<open>
  The order the specification gives for a frame, written out over the same data.  The steps
  of the input provider and of the performance monitor are outside the simulation core.
\<close>

definition system_calls :: "number \<Rightarrow> (string \<times> system) list \<Rightarrow> step list" where
  "system_calls dt ss =
    map (\<lambda>(n, s). SystemUpdate (the (sys_update s)) dt)
      (filter (\<lambda>(n, s). sys_enabled s = Some True \<and> sys_update s \<noteq> None) ss)"

definition script_calls :: "number \<Rightarrow> entities \<Rightarrow> (string \<times> nat) list \<Rightarrow> step list" where
  "script_calls dt h es =
    concat (map (\<lambda>(n, r). map (\<lambda>sc. ScriptUpdate (the (script_update sc)) dt r)
                          (filter (\<lambda>sc. script_update sc \<noteq> None) (scripts (h r))))
              (filter (\<lambda>(n, r). ent_enabled (h r)) es))"

definition specified_frame :: "number \<Rightarrow> engine \<Rightarrow> step list" where
  "specified_frame dt eng =
    map (\<lambda>fn. PreUpdateHook fn dt) (hooks_preUpdate eng)
    @ [PhysicsUpdate dt, ParticlesUpdate dt, TweensUpdate dt]
    @ system_calls dt (systems eng)
    @ script_calls dt (heap eng) (registry eng)
    @ map (\<lambda>fn. PostUpdateHook fn dt) (hooks_postUpdate eng)
    @ map PreRenderHook (hooks_preRender eng)
    @ [Render]
    @ map PostRenderHook (hooks_postRender eng)"

fun core_step :: "step \<Rightarrow> bool" where
  "core_step (InputUpdate dt) = False"
| "core_step PerformanceUpdate = False"
| "core_step _ = True"

text \<open>The engine as its constructor leaves it (the 2D mode creates the four standard layers).\<close>

definition new_engine :: "string \<Rightarrow> engine" where
  "new_engine m =
    \<lparr> mode = m, time = Fin 0, deltaTime = Fin 0, frameCount = 0, isRunning = False,
      isPaused = False, heap = (\<lambda>r. new_entity [] \<lparr> ecfg_mesh = None, ecfg_enabled = None,
        ecfg_visible = None, ecfg_x = None, ecfg_y = None, ecfg_layer = None \<rparr>),
      next_ref = 0, registry = [], systems = [],
      layers = (if m = ''3d'' then []
                else [(''background'', []), (''main'', []), (''foreground'', []), (''ui'', [])]),
      scene = [],
      hooks_preUpdate = [], hooks_postUpdate = [], hooks_preRender = [], hooks_postRender = [],
      published = [] \<rparr>"

section \<open>Sample scenes\<close>

text \<open>
  Entities, body configurations and a bounds object for the concrete runs below: an entity
  with a mesh at \<open>(1, 2, 3)\<close> and one at \<open>(0, 5, 0)\<close>, the empty configuration, a box of
  half-width 1 on every axis, and a body without gravity, with drag \<open>1 / 2\<close>, in that box.
\<close>

definition at123 :: entity where
  "at123 = \<lparr> name = ''a'', mesh = Some \<lparr> vx = Fin 1, vy = Fin 2, vz = Fin 3 \<rparr>,
     ent_enabled = True, visible = True, scripts = [], tags = [], ent_x = Fin 0, ent_y = Fin 0 \<rparr>"

definition no_config :: body_config where
  "no_config = \<lparr> cfg_velocity = None, cfg_acceleration = None, cfg_mass = None,
     cfg_useGravity = None, cfg_isStatic = None, cfg_restitution = None, cfg_friction = None,
     cfg_drag = None, cfg_collider = None, cfg_radius = None, cfg_bounds = None \<rparr>"

definition boxed :: obj where
  "boxed = [''minX'' \<mapsto> Fin (- 1), ''maxX'' \<mapsto> Fin 1, ''minY'' \<mapsto> Fin (- 1),
            ''maxY'' \<mapsto> Fin 1, ''minZ'' \<mapsto> Fin (- 1), ''maxZ'' \<mapsto> Fin 1]"

definition at050 :: entity where
  "at050 = \<lparr> name = ''c'', mesh = Some \<lparr> vx = Fin 0, vy = Fin 5, vz = Fin 0 \<rparr>,
     ent_enabled = True, visible = True, scripts = [], tags = [], ent_x = Fin 0, ent_y = Fin 0 \<rparr>"

definition floating :: body_config where
  "floating = no_config\<lparr> cfg_useGravity := Some False, cfg_drag := Some (Fin (1 / 2)),
                cfg_bounds := Some boxed \<rparr>"

text \<open>
  An entity configuration without options, and a running engine with two pre-update hooks
  and one hook of each other kind, two enabled systems around a disabled one, and two
  entities with scripts, the second entity disabled.
\<close>

definition plain :: entity_config where
  "plain = \<lparr> ecfg_mesh = None, ecfg_enabled = None, ecfg_visible = None, ecfg_x = None,
     ecfg_y = None, ecfg_layer = None \<rparr>"

definition demo_engine :: engine where
  "demo_engine =
    (new_engine ''3d'')
      \<lparr> isRunning := True,
        heap := (\<lambda>r. if r = 0
                 then (new_entity ''hero'' plain)
                        \<lparr> scripts := [\<lparr> script_init = None, script_update = Some 30 \<rparr>,
                                      \<lparr> script_init = Some 31, script_update = None \<rparr>,
                                      \<lparr> script_init = None, script_update = Some 32 \<rparr>] \<rparr>
                 else (new_entity ''ghost'' (plain\<lparr> ecfg_enabled := Some False \<rparr>))
                        \<lparr> scripts := [\<lparr> script_init = None, script_update = Some 33 \<rparr>] \<rparr>),
        next_ref := 2,
        registry := [(''hero'', 0), (''ghost'', 1)],
        systems := [(''ai'', \<lparr> sys_enabled = Some True, sys_init = None, sys_update = Some 20,
                              sys_destroy = None \<rparr>),
                    (''idle'', \<lparr> sys_enabled = Some False, sys_init = None,
                                sys_update = Some 21, sys_destroy = None \<rparr>),
                    (''fx'', \<lparr> sys_enabled = Some True, sys_init = None, sys_update = Some 22,
                              sys_destroy = None \<rparr>)],
        hooks_preUpdate := [10, 11], hooks_postUpdate := [12], hooks_preRender := [13],
        hooks_postRender := [14] \<rparr>"

text \<open>
  A physics system with two bodies on one horizontal line: a dynamic body with the box
  \<open>[- 1, 1]\<close> as bounds, at \<open>(0, 5, 0)\<close> with velocity \<open>(4, 0, 0)\<close>, and a static body
  at \<open>(1 / 2, 5, 0)\<close>, both of radius 1.
\<close>

definition crowded :: "physics \<times> entities" where
  "crowded =
    (new_physics\<lparr> bodies :=
       [new_body 0 (floating\<lparr> cfg_velocity := Some \<lparr> vx = Fin 4, vy = Fin 0, vz = Fin 0 \<rparr> \<rparr>),
        new_body 1 (no_config\<lparr> cfg_isStatic := Some True \<rparr>)] \<rparr>,
     (\<lambda>r. at050)(1 := at050\<lparr> mesh := Some \<lparr> vx = Fin (1 / 2), vy = Fin 5, vz = Fin 0 \<rparr> \<rparr>))"

section \<open>Evaluating binary64 arithmetic\<close>

lemma floorlog2_step: "0 < n \<Longrightarrow> floorlog 2 n = Suc (floorlog 2 (n div 2))"
  by (subst compute_floorlog) simp

lemma floorlog2_zero: "floorlog 2 0 = 0"
  by (simp add: floorlog_def)

lemma floor_rat_numeral: "\<lfloor>(numeral a / numeral b :: rat)\<rfloor> = numeral a div numeral b"
  by (metis floor_divide_of_int_eq of_int_numeral)

lemma floor_rat_one: "\<lfloor>(1 / numeral b :: rat)\<rfloor> = 1 div numeral b"
  by (metis floor_divide_of_int_eq of_int_numeral of_int_1)

lemma ceiling_rat_numeral:
  "\<lceil>(numeral a / numeral b :: rat)\<rceil> = - (- numeral a div numeral b)"
  by (metis ceiling_def floor_divide_of_int_eq minus_divide_left of_int_minus of_int_numeral)

lemma ceiling_rat_one: "\<lceil>(1 / numeral b :: rat)\<rceil> = - (- 1 div numeral b)"
  by (metis ceiling_def floor_divide_of_int_eq minus_divide_left of_int_minus of_int_numeral
      of_int_1)

lemmas num_eval =
  num_add_def num_sub_def num_mul_def num_div_def pack_def round64_def Let_def ilog2_def
  rne_def pow2_def zero_def inf_def num_lt_def num_le_def num_gt_def num_ge_def Math_min_def
  truthy_def or_default_def opt_or_def lit_def
  floorlog2_step floorlog2_zero floor_rat_numeral floor_rat_one ceiling_rat_numeral
  ceiling_rat_one

text \<open>
  \<open>1 / 10\<close> is not a binary64 value; the quotient \<^verbatim>\<open>1 / emitter.rate\<close> of a rate of 10
  is the nearest one, slightly above a tenth.
\<close>

lemma tenth: "num_div (Fin 1) (Fin 10) = Fin (3602879701896397 / 36028797018963968)"
  by (simp add: num_eval)

lemma zero_plus_one: "num_add (Fin 0) (Fin 1) = Fin 1"
  by (simp add: num_eval)

text \<open>Subtracting that quotient from 1 again and again, each difference rounded.\<close>

lemma countdown:
  "num_sub (Fin 1) (Fin (3602879701896397 / 36028797018963968))
     = Fin (8106479329266893 / 9007199254740992)"
  "num_sub (Fin (8106479329266893 / 9007199254740992)) (Fin (3602879701896397 / 36028797018963968))
     = Fin (3602879701896397 / 4503599627370496)"
  "num_sub (Fin (3602879701896397 / 4503599627370496)) (Fin (3602879701896397 / 36028797018963968))
     = Fin (6305039478318695 / 9007199254740992)"
  "num_sub (Fin (6305039478318695 / 9007199254740992)) (Fin (3602879701896397 / 36028797018963968))
     = Fin (1351079888211149 / 2251799813685248)"
  "num_sub (Fin (1351079888211149 / 2251799813685248)) (Fin (3602879701896397 / 36028797018963968))
     = Fin (4503599627370497 / 9007199254740992)"
  "num_sub (Fin (4503599627370497 / 9007199254740992)) (Fin (3602879701896397 / 36028797018963968))
     = Fin (1801439850948199 / 4503599627370496)"
  "num_sub (Fin (1801439850948199 / 4503599627370496)) (Fin (3602879701896397 / 36028797018963968))
     = Fin (2702159776422299 / 9007199254740992)"
  "num_sub (Fin (2702159776422299 / 9007199254740992)) (Fin (3602879701896397 / 36028797018963968))
     = Fin (7205759403792799 / 36028797018963968)"
  "num_sub (Fin (7205759403792799 / 36028797018963968)) (Fin (3602879701896397 / 36028797018963968))
     = Fin (1801439850948201 / 18014398509481984)"
  "num_sub (Fin (1801439850948201 / 18014398509481984)) (Fin (3602879701896397 / 36028797018963968))
     = Fin (5 / 36028797018963968)"
  by (simp_all add: num_eval)

lemma num_gt_Fin: "num_gt (Fin a) (Fin b) = (b < a)"
  by (simp add: num_gt_def num_lt_def)

lemma num_le_Fin: "num_le (Fin a) (Fin b) = (a \<le> b)"
  by (simp add: num_le_def)

lemma two_minus_one: "num_sub (Fin 2) (Fin 1) = Fin 1"
  by (simp add: num_eval)

text \<open>
  Rounding does not take a value that is at least 1 below 1.  So a quotient
  \<^verbatim>\<open>elapsed / 2\<close> with \<open>elapsed \<ge> 2\<close> is at least 1, or infinite, and its minimum with 1
  is 1.
\<close>

lemma pow2_powi: "pow2 e = 2 powi e"
  by (simp add: pow2_def power_int_def inverse_eq_divide power_one_over)

lemma pow2_pos: "0 < pow2 e"
  by (simp add: pow2_powi)

lemma ilog2_lower:
  assumes "1 \<le> a"
  shows "pow2 (ilog2 a) \<le> a" and "0 \<le> ilog2 a"
proof -
  let ?n = "nat \<lfloor>a\<rfloor>"
  from assms have n: "0 < ?n" by simp
  have b: "2 ^ (floorlog 2 ?n - 1) \<le> ?n"
    using floorlog_bounds [of ?n 2] n by simp
  have k: "1 \<le> floorlog 2 ?n"
    using n by (simp add: floorlog_def)
  have "pow2 (ilog2 a) = 2 ^ (floorlog 2 ?n - 1)"
    using assms k by (simp add: ilog2_def pow2_def nat_diff_distrib')
  also have "\<dots> = of_nat (2 ^ (floorlog 2 ?n - 1))" by simp
  also have "\<dots> \<le> of_nat ?n" using b by (simp only: of_nat_le_iff)
  also have "\<dots> \<le> a" using assms by (simp add: of_nat_nat) 
  finally show "pow2 (ilog2 a) \<le> a" .
  show "0 \<le> ilog2 a" using assms k by (simp add: ilog2_def)
qed

lemma rne_ge_floor: "\<lfloor>m\<rfloor> \<le> rne m"
  by (simp add: rne_def Let_def)

lemma round64_ge_one:
  assumes "1 \<le> r"
  shows "1 \<le> round64 r"
proof -
  let ?e = "ilog2 r"
  let ?u = "pow2 (?e - 52)"
  have e: "0 \<le> ?e" and le: "pow2 ?e \<le> r" using ilog2_lower [OF assms] by simp_all
  have u: "0 < ?u" by (rule pow2_pos)
  have split: "pow2 ?e = 2 ^ 52 * ?u"
    by (simp add: pow2_powi power_int_diff)
  have "(2 ^ 52 :: rat) \<le> r / ?u"
    using le u split by (simp add: pos_le_divide_eq)
  then have "(2 ^ 52 :: int) \<le> \<lfloor>r / ?u\<rfloor>"
    by (simp add: le_floor_iff)
  then have "(2 ^ 52 :: int) \<le> rne (r / ?u)"
    using rne_ge_floor [of "r / ?u"] by linarith
  then have "(2 ^ 52 :: rat) \<le> of_int (rne (r / ?u))"
    by (metis of_int_le_iff of_int_numeral of_int_power)
  then have "2 ^ 52 * ?u \<le> of_int (rne (r / ?u)) * ?u"
    using u by simp
  with split have "pow2 ?e \<le> of_int (rne (r / ?u)) * ?u" by simp
  moreover have "1 \<le> pow2 ?e" using e by (simp add: pow2_def)
  moreover have "round64 r = of_int (rne (r / ?u)) * ?u"
    using assms e by (simp add: round64_def Let_def max_def)
  ultimately show ?thesis by simp
qed

lemma full_progress:
  assumes "num_ge e (Fin 2)"
  shows "Math_min (num_div e (Fin 2)) (Fin 1) = Fin 1"
proof (cases e)
  case (Fin q)
  with assms have q: "1 \<le> q / 2" by (simp add: num_ge_def num_le_def)
  have r: "1 \<le> round64 (q / 2)" by (rule round64_ge_one [OF q])
  have nz: "round64 (q / 2) \<noteq> 0" using r by simp
  show ?thesis
    using Fin q r
    by (auto simp: num_div_def pack_def Let_def inf_def Math_min_def num_lt_def)
qed (use assms in \<open>simp_all add: num_ge_def num_le_def num_div_def inf_def Math_min_def num_lt_def\<close>)

text \<open>
  The exponent and the integer square root are what their definitions are meant to compute.
\<close>

lemma ilog2_upper_ge1:
  assumes "1 \<le> a"
  shows "a < pow2 (ilog2 a + 1)"
proof -
  let ?n = "nat \<lfloor>a\<rfloor>"
  from assms have n: "0 < ?n" by simp
  have "?n < 2 ^ floorlog 2 ?n"
    using floorlog_bounds [of ?n 2] n by simp
  then have "Suc ?n \<le> 2 ^ floorlog 2 ?n" by (rule Suc_leI)
  then have "(of_nat (Suc ?n) :: rat) \<le> of_nat (2 ^ floorlog 2 ?n)"
    by (simp only: of_nat_le_iff)
  moreover have "a < of_nat (Suc ?n)"
    using assms by (simp add: of_nat_nat) linarith
  ultimately have "a < 2 ^ floorlog 2 ?n" by simp
  then show ?thesis
    using assms by (simp add: ilog2_def pow2_def nat_add_distrib)
qed

lemma ilog2_small:
  assumes "0 < a" and "a < 1"
  shows "pow2 (ilog2 a) \<le> a" and "a < pow2 (ilog2 a + 1)"
proof -
  let ?b = "1 / a"
  let ?m = "nat (\<lceil>?b\<rceil> - 1)"
  let ?k = "floorlog 2 ?m"
  from assms have b: "1 < ?b" by simp
  then have c: "2 \<le> \<lceil>?b\<rceil>" by (simp add: le_ceiling_iff)
  then have m: "0 < ?m" by simp
  have lo: "2 ^ (?k - 1) \<le> ?m" and hi: "?m < 2 ^ ?k"
    using floorlog_bounds [of ?m 2] m by simp_all
  have k: "1 \<le> ?k" using m by (simp add: floorlog_def)
  have il: "ilog2 a = - int ?k" using assms by (simp add: ilog2_def)
  have "0 \<le> \<lceil>?b\<rceil> - 1" using c by linarith
  then have "(of_nat ?m :: rat) = of_int (\<lceil>?b\<rceil> - 1)" by (rule of_nat_nat)
  then have mr: "(of_nat ?m :: rat) = of_int \<lceil>?b\<rceil> - 1" by (simp only: of_int_diff of_int_1)
  have "Suc ?m \<le> 2 ^ ?k" using hi by (rule Suc_leI)
  then have "(of_nat (Suc ?m) :: rat) \<le> of_nat (2 ^ ?k)" by (simp only: of_nat_le_iff)
  then have "of_int \<lceil>?b\<rceil> \<le> (2 ^ ?k :: rat)" using mr by simp
  moreover have "?b \<le> of_int \<lceil>?b\<rceil>" by (rule le_of_int_ceiling)
  ultimately have "?b \<le> 2 ^ ?k" by linarith
  then have "1 / 2 ^ ?k \<le> a"
    using assms(1) by (simp add: field_simps)
  then show "pow2 (ilog2 a) \<le> a"
    using il k by (simp add: pow2_def)
  have "(of_nat (2 ^ (?k - 1)) :: rat) \<le> of_nat ?m" using lo by (simp only: of_nat_le_iff)
  then have "(2 ^ (?k - 1) :: rat) \<le> of_int \<lceil>?b\<rceil> - 1" using mr by simp
  moreover have "of_int \<lceil>?b\<rceil> - 1 < ?b" using ceiling_correct [of ?b] by linarith
  ultimately have "2 ^ (?k - 1) < ?b" by linarith
  then have s: "a < 1 / 2 ^ (?k - 1)"
    using assms(1) by (simp add: field_simps)
  show "a < pow2 (ilog2 a + 1)"
  proof (cases "?k = 1")
    case True
    with s il show ?thesis by (simp add: pow2_def)
  next
    case False
    with k have "2 \<le> ?k" by simp
    then have "nat (int ?k - 1) = ?k - 1" by simp
    with s il \<open>2 \<le> ?k\<close> show ?thesis by (simp add: pow2_def)
  qed
qed

lemma ilog2_bounds:
  assumes "0 < a"
  shows "pow2 (ilog2 a) \<le> a \<and> a < pow2 (ilog2 a + 1)"
proof (cases "1 \<le> a")
  case True
  then show ?thesis using ilog2_lower(1) ilog2_upper_ge1 by simp
next
  case False
  then show ?thesis using assms ilog2_small [of a] by simp
qed

lemma isqrt_between_bounds:
  "lo * lo \<le> n \<Longrightarrow> n < hi * hi \<Longrightarrow>
   isqrt_between lo hi n * isqrt_between lo hi n \<le> n
   \<and> n < (isqrt_between lo hi n + 1) * (isqrt_between lo hi n + 1)"
proof (induction lo hi n rule: isqrt_between.induct)
  case (1 lo hi n)
  show ?case
  proof (cases "hi \<le> lo + 1")
    case True
    then have "hi * hi \<le> (lo + 1) * (lo + 1)" by (intro mult_mono) simp_all
    with "1.prems" True show ?thesis
      by (subst (1 2 3 4) isqrt_between.simps) simp
  next
    case False
    let ?mid = "(lo + hi) div 2"
    show ?thesis
    proof (cases "?mid * ?mid \<le> n")
      case True
      with "1.IH"(1) [OF False refl True True "1.prems"(2)] False show ?thesis
        by (subst (1 2 3 4) isqrt_between.simps) (simp add: Let_def)
    next
      case f: False
      then have "n < ?mid * ?mid" by simp
      with "1.IH"(2) [OF False refl f "1.prems"(1)] False f show ?thesis
        by (subst (1 2 3 4) isqrt_between.simps) (simp add: Let_def)
    qed
  qed
qed

lemma isqrt_bounds: "isqrt n * isqrt n \<le> n \<and> n < (isqrt n + 1) * (isqrt n + 1)"
proof -
  have "n < (n + 1) * (n + 1)" by simp
  then show ?thesis
    unfolding isqrt_def by (intro isqrt_between_bounds) simp_all
qed

lemma isqrt_unique:
  assumes "r * r \<le> n" and "n < (r + 1) * (r + 1)"
  shows "isqrt n = r"
proof -
  let ?s = "isqrt n"
  have b: "?s * ?s \<le> n" "n < (?s + 1) * (?s + 1)" using isqrt_bounds [of n] by simp_all
  have "\<not> ?s < r"
  proof
    assume "?s < r"
    then have le: "?s + 1 \<le> r" by simp
    from le le have "(?s + 1) * (?s + 1) \<le> r * r" by (rule mult_le_mono)
    with b(2) assms(1) show False by simp
  qed
  moreover have "\<not> r < ?s"
  proof
    assume "r < ?s"
    then have le: "r + 1 \<le> ?s" by simp
    from le le have "(r + 1) * (r + 1) \<le> ?s * ?s" by (rule mult_le_mono)
    with b(1) assms(2) show False by simp
  qed
  ultimately show ?thesis by simp
qed

lemma isqrt_2_104: "isqrt 20282409603651670423947251286016 = 4503599627370496"
  by (rule isqrt_unique) simp_all

lemma sqrt_quarter: "Math_sqrt (Fin (1 / 4)) = Fin (1 / 2)"
  by (simp add: sqrt64_def Let_def ilog2_def pow2_def floorlog2_step floorlog2_zero
      floor_rat_numeral floor_rat_one ceiling_rat_numeral ceiling_rat_one isqrt_2_104)

section \<open>The particle pool under a whole cap\<close>

lemma spawn_step: "can_spawn em \<Longrightarrow> spawn rng em i = spawn rng (spawn_one rng em i) (i + 3)"
  by (subst spawn.simps) simp

lemma spawn_stop: "\<not> can_spawn em \<Longrightarrow> spawn rng em i = Some (em, i)"
  by (subst spawn.simps) simp

lemma whole_value:
  assumes "whole c"
  shows "\<exists>m. val c = of_nat m \<and> c \<noteq> NaN \<and> lvl c = 0"
proof (cases c)
  case (Fin q)
  with assms have "0 \<le> \<lfloor>q\<rfloor>" and q: "of_int \<lfloor>q\<rfloor> = q" by simp_all
  then have "(of_nat (nat \<lfloor>q\<rfloor>) :: rat) = of_int \<lfloor>q\<rfloor>" by (simp only: of_nat_nat)
  with q have "q = of_nat (nat \<lfloor>q\<rfloor>)" by (simp only:)
  with Fin have "val c = of_nat (nat \<lfloor>q\<rfloor>) \<and> c \<noteq> NaN \<and> lvl c = 0" by simp
  then show ?thesis by blast
next
  case NZero
  then have "val c = of_nat 0 \<and> c \<noteq> NaN \<and> lvl c = 0" by simp
  then show ?thesis by blast
qed (use assms in simp_all)

lemma whole_lt:
  "val c = of_nat m \<Longrightarrow> c \<noteq> NaN \<Longrightarrow> lvl c = 0 \<Longrightarrow> num_lt (array_length xs) c = (length xs < m)"
  by (simp add: num_lt_def array_length_def)

lemma whole_le:
  "val c = of_nat m \<Longrightarrow> c \<noteq> NaN \<Longrightarrow> lvl c = 0 \<Longrightarrow> num_le (array_length xs) c = (length xs \<le> m)"
  by (simp add: num_le_def array_length_def)

text \<open>
  Under a whole cap the spawn loop returns, with the pool within the cap if it was so
  before: a pass is taken only below the cap, and one below a whole number is at most it
  after one push.
\<close>

lemma spawn_whole:
  assumes "val (maxParticles em) = of_nat m" and "maxParticles em \<noteq> NaN"
    and "lvl (maxParticles em) = 0" and "length (particles em) \<le> m"
  shows "\<exists>em' i'. spawn rng em i = Some (em', i') \<and> length (particles em') \<le> m
           \<and> maxParticles em' = maxParticles em"
  using assms
proof (induction "m - length (particles em)" arbitrary: em i)
  case 0
  then have "\<not> can_spawn em" by (simp add: can_spawn_def whole_lt)
  with 0 show ?case by (simp add: spawn_stop)
next
  case (Suc d)
  show ?case
  proof (cases "can_spawn em")
    case True
    then have less: "length (particles em) < m"
      using Suc.prems by (simp add: can_spawn_def whole_lt)
    let ?em = "spawn_one rng em i"
    have c: "maxParticles ?em = maxParticles em" by (simp add: spawn_one_def)
    have l: "length (particles ?em) = Suc (length (particles em))" by (simp add: spawn_one_def)
    have "d = m - length (particles ?em)" using Suc.hyps(2) l by simp
    from Suc.hyps(1) [OF this, of "i + 3"] Suc.prems c l less
    obtain em' i' where "spawn rng ?em (i + 3) = Some (em', i')"
      and "length (particles em') \<le> m" and "maxParticles em' = maxParticles em"
      by auto
    with True show ?thesis by (simp add: spawn_step)
  next
    case False
    with Suc.prems show ?thesis by (simp add: spawn_stop)
  qed
qed

lemma length_map_filter_le: "length (List.map_filter f xs) \<le> length xs"
  by (induction xs) (auto simp: List.map_filter_simps split: option.splits)

lemma update_emitter_whole:
  assumes "whole (maxParticles em)" and "within_cap em"
  shows "\<exists>em' i'. update_emitter dt rng em i = Some (em', i') \<and> within_cap em'
           \<and> maxParticles em' = maxParticles em"
proof (cases "em_enabled em")
  case False
  with assms show ?thesis by (simp add: update_emitter_def)
next
  case True
  from whole_value [OF assms(1)] obtain m where
    v: "val (maxParticles em) = of_nat m" "maxParticles em \<noteq> NaN" "lvl (maxParticles em) = 0"
    by blast
  let ?em = "em\<lparr> timer := num_add (timer em) dt \<rparr>"
  have "length (particles em) \<le> m"
    using assms(2) v by (simp add: within_cap_def whole_le)
  with spawn_whole [of ?em m rng i] v
  obtain em1 i1 where s: "spawn rng ?em i = Some (em1, i1)"
    and l: "length (particles em1) \<le> m" and c: "maxParticles em1 = maxParticles em"
    by auto
  let ?ps = "List.map_filter (step_particle dt) (particles em1)"
  have "length ?ps \<le> m"
    using l length_map_filter_le [of "step_particle dt" "particles em1"] by simp
  with True s c v show ?thesis
    by (simp add: update_emitter_def Let_def within_cap_def whole_le)
qed

lemma ParticleSystem_update_whole:
  "list_all (\<lambda>em. whole (maxParticles em) \<and> within_cap em) ems \<Longrightarrow>
   \<exists>ems' i'. ParticleSystem_update dt rng ems i = Some (ems', i') \<and> list_all within_cap ems'
     \<and> map maxParticles ems' = map maxParticles ems"
proof (induction ems arbitrary: i)
  case Nil
  then show ?case by simp
next
  case (Cons em ems)
  then have "whole (maxParticles em)" and "within_cap em"
    and rest: "list_all (\<lambda>em. whole (maxParticles em) \<and> within_cap em) ems"
    by simp_all
  from update_emitter_whole [OF this(1,2), of dt rng i]
  obtain em' i' where u: "update_emitter dt rng em i = Some (em', i')"
    and "within_cap em'" and "maxParticles em' = maxParticles em"
    by blast
  moreover from Cons.IH [OF rest, of i']
  obtain ems' i'' where "ParticleSystem_update dt rng ems i' = Some (ems', i'')"
    and "list_all within_cap ems'" and "map maxParticles ems' = map maxParticles ems"
    by blast
  ultimately show ?case by simp
qed

text \<open>
  Under an infinite cap the loop can run forever: with an infinite timer every pass finds
  the condition true again.
\<close>

lemma spawn_forever:
  assumes "timer em = PInf" and "rate em = Fin 1" and "maxParticles em = PInf"
  shows "spawn rng em i = None"
proof (cases "spawn rng em i")
  case (Some r)
  have one: "num_div (Fin 1) (Fin 1) = Fin 1" by (simp add: num_eval)
  have "\<not> (timer em = PInf \<and> rate em = Fin 1 \<and> maxParticles em = PInf)"
  proof (rule spawn.raw_induct
      [where P = "\<lambda>rng em i r. \<not> (timer em = PInf \<and> rate em = Fin 1 \<and> maxParticles em = PInf)",
       OF _ Some])
    fix f :: "(nat \<Rightarrow> number) \<Rightarrow> emitter \<Rightarrow> nat \<Rightarrow> (emitter \<times> nat) option"
    fix g e k and y :: "emitter \<times> nat"
    assume IH: "\<And>g e k y. f g e k = Some y \<Longrightarrow>
                 \<not> (timer e = PInf \<and> rate e = Fin 1 \<and> maxParticles e = PInf)"
      and eq: "(if can_spawn e then f g (spawn_one g e k) (k + 3) else Some (e, k)) = Some y"
    show "\<not> (timer e = PInf \<and> rate e = Fin 1 \<and> maxParticles e = PInf)"
    proof
      assume a: "timer e = PInf \<and> rate e = Fin 1 \<and> maxParticles e = PInf"
      then have c: "can_spawn e"
        by (simp add: can_spawn_def one num_gt_def num_lt_def array_length_def)
      from a have "timer (spawn_one g e k) = PInf \<and> rate (spawn_one g e k) = Fin 1
            \<and> maxParticles (spawn_one g e k) = PInf"
        by (simp add: spawn_one_def one num_sub_def num_add_def)
      moreover from eq c have "f g (spawn_one g e k) (k + 3) = Some y" by simp
      ultimately show False using IH by blast
    qed
  qed
  with assms show ?thesis by simp
qed simp

text \<open>Whenever the loop returns, the cap is the one it started with.\<close>

lemma spawn_keeps_cap:
  assumes "spawn rng em i = Some r"
  shows "maxParticles (fst r) = maxParticles em"
proof (rule spawn.raw_induct
    [where P = "\<lambda>rng em i r. maxParticles (fst r) = maxParticles em", OF _ assms])
  fix f :: "(nat \<Rightarrow> number) \<Rightarrow> emitter \<Rightarrow> nat \<Rightarrow> (emitter \<times> nat) option"
  fix g e k and y :: "emitter \<times> nat"
  assume IH: "\<And>g e k y. f g e k = Some y \<Longrightarrow> maxParticles (fst y) = maxParticles e"
    and eq: "(if can_spawn e then f g (spawn_one g e k) (k + 3) else Some (e, k)) = Some y"
  show "maxParticles (fst y) = maxParticles e"
  proof (cases "can_spawn e")
    case True
    with eq have "f g (spawn_one g e k) (k + 3) = Some y" by simp
    from IH [OF this] show ?thesis by (simp add: spawn_one_def)
  next
    case False
    with eq show ?thesis by auto
  qed
qed

lemma update_emitter_keeps_cap:
  "update_emitter dt rng em i = Some r \<Longrightarrow> maxParticles (fst r) = maxParticles em"
  using spawn_keeps_cap [of rng "em\<lparr> timer := num_add (timer em) dt \<rparr>" i]
  by (auto simp: update_emitter_def Let_def split: if_splits option.splits)

lemma infinite_cap_within: "maxParticles em = PInf \<Longrightarrow> within_cap em"
  by (simp add: within_cap_def array_length_def num_le_def)

lemma update_emitter_sound:
  assumes "whole (maxParticles em) \<or> maxParticles em = PInf" and "within_cap em"
    and "update_emitter dt rng em i = Some r"
  shows "within_cap (fst r) \<and> maxParticles (fst r) = maxParticles em"
proof (cases "whole (maxParticles em)")
  case True
  from update_emitter_whole [OF True assms(2), of dt rng i] assms(3) show ?thesis by auto
next
  case False
  with assms(1) have "maxParticles em = PInf" by simp
  with update_emitter_keeps_cap [OF assms(3)] show ?thesis
    by (simp add: infinite_cap_within)
qed

lemma ParticleSystem_update_sound:
  "list_all (\<lambda>em. (whole (maxParticles em) \<or> maxParticles em = PInf) \<and> within_cap em) ems \<Longrightarrow>
   ParticleSystem_update dt rng ems i = Some r \<Longrightarrow>
   list_all within_cap (fst r) \<and> map maxParticles (fst r) = map maxParticles ems"
proof (induction ems arbitrary: i r)
  case Nil
  then show ?case by auto
next
  case (Cons em ems)
  from Cons.prems(2) obtain em' i' ems' i'' where
    u: "update_emitter dt rng em i = Some (em', i')"
    and p: "ParticleSystem_update dt rng ems i' = Some (ems', i'')"
    and r: "r = (em' # ems', i'')"
    by (auto split: option.splits)
  from Cons.prems(1) have e: "whole (maxParticles em) \<or> maxParticles em = PInf" "within_cap em"
    and rest: "list_all (\<lambda>em. (whole (maxParticles em) \<or> maxParticles em = PInf)
                 \<and> within_cap em) ems"
    by simp_all
  from update_emitter_sound [OF e u] Cons.IH [OF rest p] r show ?case by simp
qed

lemma three_steps:
  "num_lt (Fin 0) (Fin (5 / 2))" "num_lt (Fin 1) (Fin (5 / 2))" "num_lt (Fin 2) (Fin (5 / 2))"
  "\<not> num_lt (Fin 3) (Fin (5 / 2))" "num_le (Fin 0) (Fin (5 / 2))" "\<not> num_le (Fin 3) (Fin (5 / 2))"
  by (simp_all add: num_lt_def num_le_def)

text \<open>
  C10, as stated, fails for a cap that is not a whole number.  An emitter created with
  \<^verbatim>\<open>maxParticles: 2.5\<close> and rate 10 is empty, hence within its cap; one update with
  \<open>dt = 1\<close> leaves it with 3 live particles, above the cap: the third pass of the spawn loop
  finds \<open>2 < 2.5\<close>.
\<close>

theorem fractional_cap_overshot:
  "within_cap (createEmitter True \<lparr> opt_position = None, opt_rate = Some (Fin 10),
       opt_lifetime = None, opt_velocity = None, opt_velocityVariance = None, opt_size = None,
       opt_sizeEnd = None, opt_maxParticles = Some (Fin (5 / 2)) \<rparr>)
   \<and> map_option (\<lambda>r. (length (particles (fst r)), within_cap (fst r)))
        (update_emitter (Fin 1) (\<lambda>k. Fin (1 / 2))
          (createEmitter True \<lparr> opt_position = None, opt_rate = Some (Fin 10),
             opt_lifetime = None, opt_velocity = None, opt_velocityVariance = None,
             opt_size = None, opt_sizeEnd = None, opt_maxParticles = Some (Fin (5 / 2)) \<rparr>) 0)
      = Some (3, False)"
  by (simp add: createEmitter_def opt_or_def or_default_def truthy_def vec_or_def
      update_emitter_def spawn_step spawn_stop can_spawn_def spawn_one_def within_cap_def
      array_length_def tenth zero_plus_one countdown num_gt_Fin num_le_Fin two_minus_one
      three_steps new_particle_def step_particle_def Let_def)

text \<open>
  C10, amended.  Let the cap of every emitter be a whole number or \<open>Infinity\<close>, and let
  every emitter hold at most its cap of live particles before \<^verbatim>\<open>ParticleSystem.update\<close>.
  Then, whatever the time step and the random draws, whenever the update returns every
  emitter holds at most its cap after it and the caps are unchanged: the spawn loop pushes
  only while the pool is below the cap, and the filter only removes.  When all caps are
  whole numbers the update does return.
\<close>

theorem particle_cap_preserved:
  assumes "list_all (\<lambda>em. (whole (maxParticles em) \<or> maxParticles em = PInf) \<and> within_cap em) ems"
  shows "(\<forall>ems' i'. ParticleSystem_update dt rng ems i = Some (ems', i') \<longrightarrow>
            list_all within_cap ems' \<and> map maxParticles ems' = map maxParticles ems)
       \<and> (list_all (\<lambda>em. whole (maxParticles em)) ems \<longrightarrow>
            (\<exists>ems' i'. ParticleSystem_update dt rng ems i = Some (ems', i')))"
proof (intro conjI allI impI)
  fix ems' i'
  assume "ParticleSystem_update dt rng ems i = Some (ems', i')"
  from ParticleSystem_update_sound [OF assms this]
  show "list_all within_cap ems'" and "map maxParticles ems' = map maxParticles ems"
    by simp_all
next
  assume "list_all (\<lambda>em. whole (maxParticles em)) ems"
  with assms have "list_all (\<lambda>em. whole (maxParticles em) \<and> within_cap em) ems"
    by (simp add: list_all_iff)
  from ParticleSystem_update_whole [OF this, of dt rng i]
  show "\<exists>ems' i'. ParticleSystem_update dt rng ems i = Some (ems', i')" by blast
qed

theorem particle_cap_preserved_witness:
  "list_all (\<lambda>em. (whole (maxParticles em) \<or> maxParticles em = PInf) \<and> within_cap em)
     [createEmitter True \<lparr> opt_position = None, opt_rate = Some (Fin 10),
       opt_lifetime = None, opt_velocity = None, opt_velocityVariance = None, opt_size = None,
       opt_sizeEnd = None, opt_maxParticles = Some (Fin 3) \<rparr>]
   \<and> map_option (\<lambda>r. (map (\<lambda>em. length (particles em)) (fst r), list_all within_cap (fst r),
                       map maxParticles (fst r)))
        (ParticleSystem_update (Fin 1) (\<lambda>k. Fin (1 / 2))
          [createEmitter True \<lparr> opt_position = None, opt_rate = Some (Fin 10),
            opt_lifetime = None, opt_velocity = None, opt_velocityVariance = None,
            opt_size = None, opt_sizeEnd = None, opt_maxParticles = Some (Fin 3) \<rparr>] 0)
      = Some ([3], True, [Fin 3])"
proof -
  let ?em = "createEmitter True \<lparr> opt_position = None, opt_rate = Some (Fin 10),
       opt_lifetime = None, opt_velocity = None, opt_velocityVariance = None, opt_size = None,
       opt_sizeEnd = None, opt_maxParticles = Some (Fin 3) \<rparr>"
  have h: "list_all (\<lambda>em. (whole (maxParticles em) \<or> maxParticles em = PInf) \<and> within_cap em)
             [?em]"
    by (simp add: within_cap_def createEmitter_def opt_or_def or_default_def truthy_def
        array_length_def num_le_def)
  have w: "list_all (\<lambda>em. whole (maxParticles em)) [?em]"
    by (simp add: createEmitter_def opt_or_def or_default_def truthy_def)
  have n: "num_lt (Fin 0) (Fin 3)" "num_lt (Fin 1) (Fin 3)" "num_lt (Fin 2) (Fin 3)"
    "\<not> num_lt (Fin 3) (Fin 3)"
    by (simp_all add: num_lt_def)
  have run: "map_option (\<lambda>r. map (\<lambda>em. length (particles em)) (fst r))
        (ParticleSystem_update (Fin 1) (\<lambda>k. Fin (1 / 2)) [?em] 0) = Some [3]"
    by (simp add: createEmitter_def opt_or_def or_default_def truthy_def vec_or_def
        update_emitter_def spawn_step spawn_stop can_spawn_def spawn_one_def
        array_length_def tenth zero_plus_one countdown num_gt_Fin num_le_Fin two_minus_one
        n new_particle_def step_particle_def Let_def)
  from particle_cap_preserved [OF h, of "Fin 1" "\<lambda>k. Fin (1 / 2)" 0] w h run
  show ?thesis
    by (auto simp: createEmitter_def opt_or_def or_default_def truthy_def)
qed

section \<open>Spawning under a large time step\<close>

lemma below_thousand:
  "num_lt (Fin 0) (Fin 1000)" "num_lt (Fin 1) (Fin 1000)" "num_lt (Fin 2) (Fin 1000)"
  "num_lt (Fin 3) (Fin 1000)" "num_lt (Fin 4) (Fin 1000)" "num_lt (Fin 5) (Fin 1000)"
  "num_lt (Fin 6) (Fin 1000)" "num_lt (Fin 7) (Fin 1000)" "num_lt (Fin 8) (Fin 1000)"
  "num_lt (Fin 9) (Fin 1000)" "num_lt (Fin 10) (Fin 1000)"
  by (simp_all add: num_lt_def)

text \<open>
  C3.  An enabled emitter with rate 10, cap 1000, an empty accumulator and no live particle:
  the spawn loop of one update with \<open>dt = 1\<close> returns and has pushed exactly 10 particles.
  In binary64 arithmetic the accumulator after nine subtractions of \<^verbatim>\<open>1 / rate\<close> is still
  above \<^verbatim>\<open>1 / rate\<close>, so the strict comparison admits the tenth particle.  With the default
  lifetime of 2 all ten outlive the same update.
\<close>

theorem spawn_ten_in_one_second:
  assumes "em_enabled em" and "rate em = Fin 10" and "maxParticles em = Fin 1000"
    and "timer em = Fin 0" and "particles em = []"
  shows "map_option (\<lambda>r. length (particles (fst r)))
           (spawn rng (em\<lparr> timer := num_add (timer em) (Fin 1) \<rparr>) i) = Some 10
       \<and> (lifetime em = Fin 2 \<longrightarrow>
            map_option (\<lambda>r. length (particles (fst r)))
              (update_emitter (Fin 1) rng em i) = Some 10)"
  using assms
  by (simp add: update_emitter_def spawn_step spawn_stop can_spawn_def spawn_one_def tenth
      zero_plus_one countdown num_gt_Fin num_le_Fin two_minus_one new_particle_def
      step_particle_def array_length_def below_thousand Let_def)

theorem spawn_ten_in_one_second_witness:
  "map_option (\<lambda>r. length (particles (fst r)))
     (update_emitter (Fin 1) (\<lambda>k. Fin (1 / 2))
        (createEmitter True \<lparr> opt_position = None, opt_rate = Some (Fin 10),
           opt_lifetime = None, opt_velocity = None, opt_velocityVariance = None,
           opt_size = None, opt_sizeEnd = None, opt_maxParticles = Some (Fin 1000) \<rparr>) 0)
     = Some 10"
  using spawn_ten_in_one_second [of "createEmitter True \<lparr> opt_position = None,
         opt_rate = Some (Fin 10), opt_lifetime = None, opt_velocity = None,
         opt_velocityVariance = None, opt_size = None, opt_sizeEnd = None,
         opt_maxParticles = Some (Fin 1000) \<rparr>" "\<lambda>k. Fin (1 / 2)" 0]
  by (simp add: createEmitter_def opt_or_def or_default_def truthy_def)

section \<open>A linear tween from 0 to 10 over 2 seconds\<close>

lemma TweenSystem_updates_empty: "TweenSystem_updates dts [] h = ([], h, [])"
  by (induction dts) simp_all

lemma half_way:
  "num_div (Fin 1) (Fin 2) = Fin (1 / 2)"
  "Math_min (Fin (1 / 2)) (Fin 1) = Fin (1 / 2)"
  "num_sub (Fin 10) (Fin 0) = Fin 10"
  "num_mul (Fin 10) (Fin (1 / 2)) = Fin 5"
  "num_add (Fin 0) (Fin 5) = Fin 5"
  "num_ge (Fin (1 / 2)) (Fin 1) = False"
  by (simp_all add: num_eval)

lemma all_the_way:
  "num_div (Fin 2) (Fin 2) = Fin 1"
  "Math_min (Fin 1) (Fin 1) = Fin 1"
  "num_mul (Fin 10) (Fin 1) = Fin 10"
  "num_add (Fin 0) (Fin 10) = Fin 10"
  "num_ge (Fin 1) (Fin 1) = True"
  by (simp_all add: num_eval)

text \<open>
  C4.  The tween is created by \<^verbatim>\<open>to(target, {x: 10}, 2, {onComplete: c})\<close> on a target whose
  \<open>x\<close> is 0: linear easing, no delay.  Its only field that later steps change is \<open>elapsed\<close>.
  When a step brings \<open>elapsed\<close> to 1, the step writes 5 to the target's \<open>x\<close>, keeps the tween
  and invokes no callback.  When a step brings \<open>elapsed\<close> to 2 or beyond, the step
  writes 10, invokes the completion callback once and removes the tween; whatever steps
  follow, that one invocation stays the only one and the target is not written again.
\<close>

theorem tween_halfway_and_completion:
  assumes "hc r ''x'' = Some (Fin 0)"
    and "tw = new_tween hc r [(''x'', Fin 10)] (Fin 2)
               \<lparr> opt_easing = None, opt_onUpdate = None, opt_onComplete = Some c,
                 opt_delay = None \<rparr>"
  shows "(num_add e dt = Fin 1 \<longrightarrow>
            TweenSystem_update dt [tw\<lparr> elapsed := e \<rparr>] h
              = ([tw\<lparr> elapsed := Fin 1 \<rparr>], h(r := (h r)(''x'' \<mapsto> Fin 5)), []))
       \<and> (num_ge (num_add e dt) (Fin 2) \<longrightarrow>
            TweenSystem_updates (dt # dts) [tw\<lparr> elapsed := e \<rparr>] h
              = ([], h(r := (h r)(''x'' \<mapsto> Fin 10)), [OnComplete c r]))"
  using assms
  by (simp add: new_tween_def step_tween_def capture_def rd_def easeLinear_def calls_of_def
      opt_or_def num_gt_Fin half_way all_the_way full_progress TweenSystem_updates_empty
      Let_def)

theorem tween_halfway_and_completion_witness:
  "TweenSystem_updates [Fin 1, Fin 1, Fin 1]
      [new_tween (\<lambda>r. [''x'' \<mapsto> Fin 0]) 0 [(''x'', Fin 10)] (Fin 2)
         \<lparr> opt_easing = None, opt_onUpdate = None, opt_onComplete = Some 7, opt_delay = None \<rparr>]
      (\<lambda>r. [''x'' \<mapsto> Fin 0])
    = ([], (\<lambda>r. [''x'' \<mapsto> Fin 0])(0 := [''x'' \<mapsto> Fin 10]), [OnComplete 7 0])"
proof -
  let ?h = "\<lambda>r::nat. [''x'' \<mapsto> Fin 0]"
  let ?tw = "new_tween ?h 0 [(''x'', Fin 10)] (Fin 2)
         \<lparr> opt_easing = None, opt_onUpdate = None, opt_onComplete = Some 7, opt_delay = None \<rparr>"
  have a: "num_add (Fin 0) (Fin 1) = Fin 1" and b: "num_add (Fin 1) (Fin 1) = Fin 2"
    by (simp_all add: num_eval)
  have x: "?h 0 ''x'' = Some (Fin 0)" by simp
  have e0: "?tw\<lparr> elapsed := Fin 0 \<rparr> = ?tw" by (simp add: new_tween_def)
  have first: "TweenSystem_update (Fin 1) [?tw] ?h
      = ([?tw\<lparr> elapsed := Fin 1 \<rparr>], ?h(0 := (?h 0)(''x'' \<mapsto> Fin 5)), [])"
    using tween_halfway_and_completion [where hc = ?h and r = 0 and tw = ?tw and c = 7
        and e = "Fin 0" and dt = "Fin 1" and h = ?h] x a e0 by simp
  have rest: "TweenSystem_updates [Fin 1, Fin 1] [?tw\<lparr> elapsed := Fin 1 \<rparr>]
        (?h(0 := (?h 0)(''x'' \<mapsto> Fin 5)))
      = ([], (?h(0 := (?h 0)(''x'' \<mapsto> Fin 5)))
               (0 := ((?h(0 := (?h 0)(''x'' \<mapsto> Fin 5))) 0)(''x'' \<mapsto> Fin 10)),
         [OnComplete 7 0])"
    using tween_halfway_and_completion [where hc = ?h and r = 0 and tw = ?tw and c = 7
        and e = "Fin 1" and dt = "Fin 1" and h = "?h(0 := (?h 0)(''x'' \<mapsto> Fin 5))"
        and dts = "[Fin 1]"] x b by (simp add: num_ge_def num_le_def)
  show ?thesis
    using first rest by (simp del: TweenSystem_update.simps)
qed

section \<open>Zero duration and zero rate\<close>

lemma one_over_zero: "num_div (Fin 1) (Fin 0) = PInf"
  by (simp add: num_div_def inf_def)

lemma never_above_infinity: "num_gt t PInf = False"
  by (cases t) (simp_all add: num_gt_def num_lt_def)

lemma positive_over_zero: "num_gt e (Fin 0) \<Longrightarrow> num_div e (Fin 0) = PInf"
  by (cases e) (auto simp: num_gt_def num_lt_def num_div_def inf_def)

lemma min_infinity_one: "Math_min PInf (Fin 1) = Fin 1"
  by (simp add: Math_min_def num_lt_def)

lemma one_ge_one: "num_ge (Fin 1) (Fin 1)"
  by (simp add: num_ge_def num_le_def)

text \<open>
  C9, as stated, fails: the steps contain no guard, and the quotient
  \<^verbatim>\<open>tween.elapsed / tween.duration\<close> drives the update.  A tween of duration 0 stepped with
  \<open>dt = 0\<close> computes \<open>0 / 0\<close>, which is NaN; the step writes NaN to the target and keeps the
  tween.
\<close>

theorem zero_duration_zero_dt_writes_NaN:
  "TweenSystem_update (Fin 0)
      [new_tween (\<lambda>r. [''x'' \<mapsto> Fin 0]) 0 [(''x'', Fin 10)] (Fin 0)
         \<lparr> opt_easing = None, opt_onUpdate = None, opt_onComplete = Some 7, opt_delay = None \<rparr>]
      (\<lambda>r. [''x'' \<mapsto> Fin 0])
    = ([new_tween (\<lambda>r. [''x'' \<mapsto> Fin 0]) 0 [(''x'', Fin 10)] (Fin 0)
         \<lparr> opt_easing = None, opt_onUpdate = None, opt_onComplete = Some 7, opt_delay = None \<rparr>],
       (\<lambda>r. [''x'' \<mapsto> Fin 0])(0 := [''x'' \<mapsto> NaN]), [])"
  by (simp add: new_tween_def step_tween_def capture_def rd_def easeLinear_def calls_of_def
      Let_def num_eval)

text \<open>
  C9, amended.  Neither step raises, and neither needs a guard: a division by zero yields an
  infinity.  For an emitter whose rate is zero, \<^verbatim>\<open>1 / rate\<close> is \<open>+Infinity\<close>, no timer
  exceeds it, and the spawn loop ends at once without a particle (and \<^verbatim>\<open>createEmitter\<close>
  replaces a rate option of zero by 10).  For an active tween of duration zero, past its
  delay, whose elapsed time is positive after the step, \<^verbatim>\<open>elapsed / duration\<close> is
  \<open>+Infinity\<close> and \<open>t\<close> is 1: the step writes the end values as eased at 1, invokes
  \<^verbatim>\<open>onUpdate\<close> and \<^verbatim>\<open>onComplete\<close>, and removes the tween.
\<close>

theorem zero_rate_and_zero_duration:
  "(rate em = Fin 0 \<longrightarrow> spawn rng em i = Some (em, i))
   \<and> rate (createEmitter mode3d (options\<lparr> opt_rate := Some (Fin 0) \<rparr>)) = Fin 10
   \<and> (duration tw = Fin 0 \<and> active tw \<and> \<not> num_gt (delay tw) (Fin 0)
        \<and> num_gt (num_add (elapsed tw) dt) (Fin 0) \<longrightarrow>
      step_tween dt tw h =
        (tw\<lparr> elapsed := num_add (elapsed tw) dt \<rparr>, False,
         h(target tw :=
             write_props (h (target tw)) (startValues tw) (easing tw (Fin 1)) (endValues tw)),
         calls_of (onUpdate tw) (\<lambda>c. OnUpdate c (target tw) (easing tw (Fin 1)))
           @ calls_of (onComplete tw) (\<lambda>c. OnComplete c (target tw))))"
proof (intro conjI impI)
  assume "rate em = Fin 0"
  then have "\<not> can_spawn em"
    by (simp add: can_spawn_def one_over_zero never_above_infinity)
  then show "spawn rng em i = Some (em, i)" by (rule spawn_stop)
next
  show "rate (createEmitter mode3d (options\<lparr> opt_rate := Some (Fin 0) \<rparr>)) = Fin 10"
    by (simp add: createEmitter_def opt_or_def or_default_def truthy_def)
next
  assume a: "duration tw = Fin 0 \<and> active tw \<and> \<not> num_gt (delay tw) (Fin 0)
        \<and> num_gt (num_add (elapsed tw) dt) (Fin 0)"
  then have "num_div (num_add (elapsed tw) dt) (duration tw) = PInf"
    by (simp add: positive_over_zero)
  with a show "step_tween dt tw h =
        (tw\<lparr> elapsed := num_add (elapsed tw) dt \<rparr>, False,
         h(target tw :=
             write_props (h (target tw)) (startValues tw) (easing tw (Fin 1)) (endValues tw)),
         calls_of (onUpdate tw) (\<lambda>c. OnUpdate c (target tw) (easing tw (Fin 1)))
           @ calls_of (onComplete tw) (\<lambda>c. OnComplete c (target tw)))"
    by (simp add: step_tween_def Let_def min_infinity_one one_ge_one)
qed

theorem zero_rate_and_zero_duration_witness:
  "spawn (\<lambda>k. Fin 0)
      ((createEmitter True \<lparr> opt_position = None, opt_rate = None, opt_lifetime = None,
          opt_velocity = None, opt_velocityVariance = None, opt_size = None,
          opt_sizeEnd = None, opt_maxParticles = None \<rparr>)\<lparr> rate := Fin 0, timer := Fin 5 \<rparr>) 0
     = Some ((createEmitter True \<lparr> opt_position = None, opt_rate = None, opt_lifetime = None,
          opt_velocity = None, opt_velocityVariance = None, opt_size = None,
          opt_sizeEnd = None, opt_maxParticles = None \<rparr>)\<lparr> rate := Fin 0, timer := Fin 5 \<rparr>, 0)
   \<and> step_tween (Fin 1)
        (new_tween (\<lambda>r. [''x'' \<mapsto> Fin 0]) 0 [(''x'', Fin 10)] (Fin 0)
          \<lparr> opt_easing = None, opt_onUpdate = None, opt_onComplete = Some 7, opt_delay = None \<rparr>)
        (\<lambda>r. [''x'' \<mapsto> Fin 0])
     = ((new_tween (\<lambda>r. [''x'' \<mapsto> Fin 0]) 0 [(''x'', Fin 10)] (Fin 0)
          \<lparr> opt_easing = None, opt_onUpdate = None, opt_onComplete = Some 7, opt_delay = None \<rparr>)
          \<lparr> elapsed := Fin 1 \<rparr>,
        False, (\<lambda>r. [''x'' \<mapsto> Fin 0])(0 := [''x'' \<mapsto> Fin 10]), [OnComplete 7 0])"
proof -
  let ?em = "(createEmitter True \<lparr> opt_position = None, opt_rate = None, opt_lifetime = None,
          opt_velocity = None, opt_velocityVariance = None, opt_size = None,
          opt_sizeEnd = None, opt_maxParticles = None \<rparr>)\<lparr> rate := Fin 0, timer := Fin 5 \<rparr>"
  let ?h = "\<lambda>r::nat. [''x'' \<mapsto> Fin 0]"
  let ?tw = "new_tween ?h 0 [(''x'', Fin 10)] (Fin 0)
          \<lparr> opt_easing = None, opt_onUpdate = None, opt_onComplete = Some 7, opt_delay = None \<rparr>"
  have n: "num_add (Fin 0) (Fin 1) = Fin 1" "num_sub (Fin 10) (Fin 0) = Fin 10"
    "num_mul (Fin 10) (Fin 1) = Fin 10" "num_add (Fin 0) (Fin 10) = Fin 10"
    by (simp_all add: num_eval)
  from zero_rate_and_zero_duration [where em = ?em and tw = ?tw and dt = "Fin 1" and h = ?h
      and rng = "\<lambda>k. Fin 0" and i = 0]
  show ?thesis
    by (simp add: new_tween_def capture_def rd_def easeLinear_def calls_of_def opt_or_def
        num_gt_Fin n)
qed

section \<open>Physics: forces, bounds and coincident bodies\<close>

lemma pack_zero: "pack s 0 = zero s"
  by (simp add: pack_def round64_def pow2_def)

lemma sub_same_coord:
  "same_coord a b \<Longrightarrow> num_sub b a = Fin 0 \<or> num_sub b a = NZero \<or> num_sub b a = NaN"
  by (cases a; cases b) (auto simp: same_coord_def num_sub_def num_add_def zero_def)

lemma square_zero_or_nan:
  "d = Fin 0 \<or> d = NZero \<or> d = NaN \<Longrightarrow> num_mul d d = Fin 0 \<or> num_mul d d = NaN"
  by (auto simp: num_mul_def pack_zero zero_def)

lemma add_zero_or_nan:
  "a = Fin 0 \<or> a = NaN \<Longrightarrow> b = Fin 0 \<or> b = NaN \<Longrightarrow> num_add a b = Fin 0 \<or> num_add a b = NaN"
  by (auto simp: num_add_def zero_def)

lemma sqrt_zero_or_nan:
  "a = Fin 0 \<or> a = NaN \<Longrightarrow> \<not> num_gt (Math_sqrt a) (Fin 0)"
  by (auto simp: num_gt_def num_lt_def)

lemma square_diff_same_coord:
  "same_coord a b \<Longrightarrow>
   num_mul (num_sub b a) (num_sub b a) = Fin 0 \<or> num_mul (num_sub b a) (num_sub b a) = NaN"
  using sub_same_coord [of a b] square_zero_or_nan [of "num_sub b a"] by blast

text \<open>
  C8.  When the positions of the two owning entities coincide, \<^verbatim>\<open>checkCollision\<close> takes
  the branch without the divisions: the distance is zero (or NaN, for coordinates that are
  infinite or absent), the test \<^verbatim>\<open>distance > 0\<close> fails, no position is written and no
  \<open>collision\<close> event is published.  This covers two bodies of the same entity.
\<close>

theorem coincident_pair_skipped:
  assumes "coincident (position_get (h (body_entity bodyA))) (position_get (h (body_entity bodyB)))"
  shows "checkCollision bodyA bodyB h = (h, [])"
proof -
  let ?pA = "position_get (h (body_entity bodyA))"
  let ?pB = "position_get (h (body_entity bodyB))"
  let ?dx = "num_sub (vx ?pB) (vx ?pA)"
  let ?dy = "num_sub (vy ?pB) (vy ?pA)"
  let ?dz = "num_sub (vz ?pB) (vz ?pA)"
  have x: "num_mul ?dx ?dx = Fin 0 \<or> num_mul ?dx ?dx = NaN"
    using assms by (simp add: coincident_def square_diff_same_coord)
  have y: "num_mul ?dy ?dy = Fin 0 \<or> num_mul ?dy ?dy = NaN"
    using assms by (simp add: coincident_def square_diff_same_coord)
  have z: "num_mul ?dz ?dz = Fin 0 \<or> num_mul ?dz ?dz = NaN"
    using assms by (simp add: coincident_def square_diff_same_coord)
  have "\<not> num_gt (Math_sqrt (num_add (num_add (num_mul ?dx ?dx) (num_mul ?dy ?dy))
                 (num_mul ?dz ?dz))) (Fin 0)"
    by (intro sqrt_zero_or_nan add_zero_or_nan x y z)
  then show ?thesis
    by (simp add: checkCollision_def Let_def)
qed

theorem coincident_pair_skipped_witness:
  "coincident (position_get at123) (position_get (at123\<lparr> name := ''b'' \<rparr>))
   \<and> checkCollision (new_body 0 no_config) (new_body 1 no_config)
        ((\<lambda>r. at123)(1 := at123\<lparr> name := ''b'' \<rparr>))
      = ((\<lambda>r. at123)(1 := at123\<lparr> name := ''b'' \<rparr>), [])"
proof -
  let ?h = "(\<lambda>r::nat. at123)(1 := at123\<lparr> name := ''b'' \<rparr>)"
  have c: "coincident (position_get (?h (body_entity (new_body 0 no_config))))
                      (position_get (?h (body_entity (new_body 1 no_config))))"
    by (simp add: coincident_def same_coord_def position_get_def at123_def new_body_def)
  have "coincident (position_get at123) (position_get (at123\<lparr> name := ''b'' \<rparr>))"
    by (simp add: coincident_def same_coord_def position_get_def at123_def)
  with coincident_pair_skipped [OF c] show ?thesis by blast
qed


lemma num_le_not_gt: "num_le a b \<Longrightarrow> \<not> num_gt a b"
  by (auto simp: num_le_def num_gt_def num_lt_def)

lemma num_le_refl: "a \<noteq> NaN \<Longrightarrow> num_le a a"
  by (simp add: num_le_def)

lemma num_le_not_NaN: "num_le a b \<Longrightarrow> a \<noteq> NaN \<and> b \<noteq> NaN"
  by (simp add: num_le_def)

lemma not_lt_le: "a \<noteq> NaN \<Longrightarrow> b \<noteq> NaN \<Longrightarrow> \<not> num_lt a b \<Longrightarrow> num_le b a"
  by (auto simp: num_le_def num_lt_def)

lemma hit_max_hit_min:
  assumes "num_le lo hi"
  shows "hit_max hi r (hit_min lo r (p, v)) =
    (if num_lt p lo \<or> num_gt p hi
     then (if num_lt p lo then lo else hi, num_mul v (num_neg r)) else (p, v))"
  using num_le_not_gt [OF assms] by (simp add: hit_max_def hit_min_def)

lemma clamped_range:
  assumes "num_le lo hi" and "p \<noteq> NaN"
  shows "num_le lo (fst (hit_max hi r (hit_min lo r (p, v))))
       \<and> num_le (fst (hit_max hi r (hit_min lo r (p, v)))) hi"
  using assms num_le_not_NaN [OF assms(1)]
  by (auto simp: hit_max_hit_min num_le_refl num_gt_def not_lt_le)

lemma or_default_zero_le:
  "num_le a c \<Longrightarrow> num_le a (or_default c (Fin 0))"
  "num_le c b \<Longrightarrow> num_le (or_default c (Fin 0)) b"
  by (cases c; auto simp: or_default_def truthy_def num_le_def)+

lemma position_get_set:
  "position_get (position_set pos e) =
    \<lparr> vx = or_default (vx pos) (Fin 0), vy = or_default (vy pos) (Fin 0),
      vz = (case mesh e of None \<Rightarrow> NaN | Some p \<Rightarrow> or_default (vz pos) (Fin 0)) \<rparr>"
  by (simp add: position_get_def position_set_def split: option.splits)

lemma mesh_position_set: "(mesh (position_set pos e) = None) = (mesh e = None)"
  by (simp add: position_set_def split: option.splits)

lemma before_bounds_fields:
  assumes "before_bounds dt g b h = (b4, p4, h4)"
  shows "body_entity b4 = body_entity b" and "restitution b4 = restitution b"
    and "bounds b4 = bounds b"
    and "(mesh (h4 (body_entity b)) = None) = (mesh (h (body_entity b)) = None)"
  using assms
  by (auto simp: before_bounds_def ground_collision_def integrate_def apply_drag_def
      update_velocity_def apply_gravity_def store_position_def mesh_position_set Let_def
      split: if_splits)

lemma no_drag_numbers:
  "num_sub (Fin 1) (Fin (1 / 2)) = Fin (1 / 2)"
  "num_mul (Fin 0) (Fin 1) = Fin 0"
  "num_add (Fin 0) (Fin 0) = Fin 0"
  "num_add (Fin 3) (Fin 0) = Fin 3"
  "num_add (Fin 4) (Fin 0) = Fin 4"
  "num_mul (Fin 0) (Fin (1 / 2)) = Fin 0"
  "num_mul (Fin 3) (Fin (1 / 2)) = Fin (3 / 2)"
  "num_mul (Fin 4) (Fin (1 / 2)) = Fin 2"
  "num_mul (Fin (3 / 2)) (Fin 1) = Fin (3 / 2)"
  "num_mul (Fin 2) (Fin 1) = Fin 2"
  "num_add (Fin 5) (Fin (3 / 2)) = Fin (13 / 2)"
  "num_add (Fin 5) (Fin 0) = Fin 5"
  "num_add (Fin 0) (Fin 2) = Fin 2"
  "num_mul (Fin 2) (Fin (- (1 / 2))) = Fin (- 1)"
  by (simp_all add: num_eval)

lemmas physics_eval =
  update_body_def before_bounds_def bounds_collision_def ground_collision_def integrate_def
  apply_drag_def update_velocity_def apply_gravity_def update_position_def store_position_def
  reset_acceleration_def position_get_def position_set_def hit_min_def hit_max_def
  new_body_def vec_or_def opt_or_def or_default_def truthy_def rd_def Let_def
  num_lt_def num_gt_def num_le_def

text \<open>
  C7, as stated, fails on the vertical axis, and on every axis once the collision pass has
  run.  A body whose bounds declare the box \<open>[- 1, 1]\<close> on every axis, at \<open>(0, 5, 0)\<close>
  with velocity \<open>(0, 3, 0)\<close>, no gravity and drag \<open>1 / 2\<close>, ends its pass of the
  integration loop at \<open>y = 13 / 2\<close>, above the declared \<open>maxY = 1\<close>, and its \<open>y\<close>
  velocity \<open>3 / 2\<close> is not reflected.  The same body with velocity \<open>(4, 0, 0)\<close> is
  clamped to \<open>x = 1\<close> by its pass of the loop; the collision pass that ends the same update
  then pushes it away from a static body at \<open>(1 / 2, 5, 0)\<close> and the update ends with the
  body at \<open>x = 7 / 4\<close>, beyond the declared \<open>maxX = 1\<close>.
\<close>

theorem y_axis_not_clamped:
  "position_get (snd (update_body (Fin 1) (Fin (- 10))
       (new_body 0 (floating\<lparr> cfg_velocity := Some \<lparr> vx = Fin 0, vy = Fin 3, vz = Fin 0 \<rparr> \<rparr>))
       (\<lambda>r. at050)) 0)
     = \<lparr> vx = Fin 0, vy = Fin (13 / 2), vz = Fin 0 \<rparr>
   \<and> velocity (fst (update_body (Fin 1) (Fin (- 10))
       (new_body 0 (floating\<lparr> cfg_velocity := Some \<lparr> vx = Fin 0, vy = Fin 3, vz = Fin 0 \<rparr> \<rparr>))
       (\<lambda>r. at050)))
     = \<lparr> vx = Fin 0, vy = Fin (3 / 2), vz = Fin 0 \<rparr>
   \<and> rd boxed ''maxY'' = Fin 1
   \<and> position_get (fst (snd (PhysicsSystem_update (Fin 1) (fst crowded) (snd crowded))) 0)
     = \<lparr> vx = Fin (7 / 4), vy = Fin 5, vz = Fin 0 \<rparr>
   \<and> rd boxed ''maxX'' = Fin 1"
proof -
  have a: "position_get (snd (update_body (Fin 1) (Fin (- 10))
       (new_body 0 (floating\<lparr> cfg_velocity := Some \<lparr> vx = Fin 0, vy = Fin 3, vz = Fin 0 \<rparr> \<rparr>))
       (\<lambda>r. at050)) 0)
     = \<lparr> vx = Fin 0, vy = Fin (13 / 2), vz = Fin 0 \<rparr>
   \<and> velocity (fst (update_body (Fin 1) (Fin (- 10))
       (new_body 0 (floating\<lparr> cfg_velocity := Some \<lparr> vx = Fin 0, vy = Fin 3, vz = Fin 0 \<rparr> \<rparr>))
       (\<lambda>r. at050)))
     = \<lparr> vx = Fin 0, vy = Fin (3 / 2), vz = Fin 0 \<rparr>
   \<and> rd boxed ''maxY'' = Fin 1 \<and> rd boxed ''maxX'' = Fin 1"
    by (simp add: physics_eval floating_def no_config_def at050_def boxed_def no_drag_numbers)
  have bodies: "update_bodies (Fin 1) (gravity (fst crowded)) (bodies (fst crowded)) (snd crowded)
     = ([(new_body 0 (floating\<lparr> cfg_velocity := Some \<lparr> vx = Fin 4, vy = Fin 0, vz = Fin 0 \<rparr> \<rparr>))
           \<lparr> velocity := \<lparr> vx = Fin (- 1), vy = Fin 0, vz = Fin 0 \<rparr> \<rparr>,
         new_body 1 (no_config\<lparr> cfg_isStatic := Some True \<rparr>)],
        (snd crowded)(0 := at050\<lparr> mesh := Some \<lparr> vx = Fin 1, vy = Fin 5, vz = Fin 0 \<rparr> \<rparr>))"
    by (simp add: crowded_def new_physics_def physics_eval floating_def no_config_def at050_def
        boxed_def no_drag_numbers)
  have n: "num_sub (Fin (1 / 2)) (Fin 1) = Fin (- (1 / 2))" "num_sub (Fin 5) (Fin 5) = Fin 0"
    "num_sub (Fin 0) (Fin 0) = Fin 0" "num_mul (Fin (- (1 / 2))) (Fin (- (1 / 2))) = Fin (1 / 4)"
    "num_mul (Fin 0) (Fin 0) = Fin 0" "num_add (Fin (1 / 4)) (Fin 0) = Fin (1 / 4)"
    "num_add (Fin 1) (Fin 1) = Fin 2" "num_div (Fin (- (1 / 2))) (Fin (1 / 2)) = Fin (- 1)"
    "num_div (Fin 0) (Fin (1 / 2)) = Fin 0" "num_sub (Fin 2) (Fin (1 / 2)) = Fin (3 / 2)"
    "num_mul (Fin (- 1)) (Fin (3 / 2)) = Fin (- (3 / 2))"
    "num_mul (Fin (- (3 / 2))) (Fin (1 / 2)) = Fin (- (3 / 4))"
    "num_sub (Fin 1) (Fin (- (3 / 4))) = Fin (7 / 4)" "num_mul (Fin 0) (Fin (3 / 2)) = Fin 0"
    "num_mul (Fin 0) (Fin (1 / 2)) = Fin 0" "num_sub (Fin 5) (Fin 0) = Fin 5"
    by (simp_all add: num_eval)
  have sq: "sqrt64 (1 / 4) = 1 / 2"
    using sqrt_quarter by simp
  have b: "position_get (fst (snd (PhysicsSystem_update (Fin 1) (fst crowded) (snd crowded))) 0)
     = \<lparr> vx = Fin (7 / 4), vy = Fin 5, vz = Fin 0 \<rparr>"
    unfolding PhysicsSystem_update_def bodies
    by (simp add: crowded_def new_physics_def checkCollision_def push_apart_def
        store_position_def position_get_def position_set_def new_body_def no_config_def
        floating_def at050_def vec_or_def opt_or_def or_default_def truthy_def Let_def
        num_lt_def num_gt_def sq n)
  from a b show ?thesis by simp
qed

text \<open>
  C7, amended.  For a dynamic body with bounds whose \<open>minX \<le> maxX\<close> and \<open>minZ \<le> maxZ\<close>,
  let \<open>p4\<close> and \<open>b4\<close> be the position and the body when the bounds check of the body's
  pass of the integration loop begins, and \<open>b'\<close>, \<open>h'\<close> the body and the entities when that
  pass ends.  The stored \<open>x\<close> is then \<open>x\<close> clamped into \<open>[minX, maxX]\<close>: \<open>minX\<close> if
  \<open>x\<close> was below it, \<open>maxX\<close> if \<open>x\<close> was above it, \<open>x\<close> itself otherwise (the position
  setter stores 0 for a value that is not truthy); so it lies within \<open>[minX, maxX]\<close> if
  \<open>x\<close> was a number.  For an entity with a mesh the same holds of \<open>z\<close> and
  \<open>[minZ, maxZ]\<close>.  The \<open>x\<close> velocity is multiplied by \<open>- restitution\<close> exactly when \<open>x\<close>
  was outside its interval, and likewise for \<open>z\<close>.  The bounds check leaves the \<open>y\<close>
  coordinate and the \<open>y\<close> velocity as they were: the vertical axis is handled by the ground
  contact alone.  This is the state at the end of the body's pass of the loop; the collision
  pass that ends the update moves overlapping bodies without a further bounds check.  When
  the body is the only body of the system, no pair is checked and this is the state in which
  the whole update ends.
\<close>

theorem bounds_clamp_x_and_z:
  assumes "\<not> isStatic b" and "bounds b = Some bd"
    and "num_le (rd bd ''minX'') (rd bd ''maxX'')" and "num_le (rd bd ''minZ'') (rd bd ''maxZ'')"
    and "before_bounds dt g b h = (b4, p4, h4)"
    and "update_body dt g b h = (b', h')"
  shows "vx (position_get (h' (body_entity b))) =
           or_default (if num_lt (vx p4) (rd bd ''minX'') then rd bd ''minX''
                       else if num_gt (vx p4) (rd bd ''maxX'') then rd bd ''maxX''
                       else vx p4) (Fin 0)
       \<and> (mesh (h (body_entity b)) \<noteq> None \<longrightarrow>
            vz (position_get (h' (body_entity b))) =
              or_default (if num_lt (vz p4) (rd bd ''minZ'') then rd bd ''minZ''
                          else if num_gt (vz p4) (rd bd ''maxZ'') then rd bd ''maxZ''
                          else vz p4) (Fin 0))
       \<and> (vx p4 \<noteq> NaN \<longrightarrow>
            num_le (rd bd ''minX'') (vx (position_get (h' (body_entity b))))
          \<and> num_le (vx (position_get (h' (body_entity b)))) (rd bd ''maxX''))
       \<and> (vz p4 \<noteq> NaN \<and> mesh (h (body_entity b)) \<noteq> None \<longrightarrow>
            num_le (rd bd ''minZ'') (vz (position_get (h' (body_entity b))))
          \<and> num_le (vz (position_get (h' (body_entity b)))) (rd bd ''maxZ''))
       \<and> vx (velocity b') =
           (if num_lt (vx p4) (rd bd ''minX'') \<or> num_gt (vx p4) (rd bd ''maxX'')
            then num_mul (vx (velocity b4)) (num_neg (restitution b)) else vx (velocity b4))
       \<and> vz (velocity b') =
           (if num_lt (vz p4) (rd bd ''minZ'') \<or> num_gt (vz p4) (rd bd ''maxZ'')
            then num_mul (vz (velocity b4)) (num_neg (restitution b)) else vz (velocity b4))
       \<and> vy (velocity b') = vy (velocity b4)
       \<and> vy (position_get (h' (body_entity b))) = or_default (vy p4) (Fin 0)
       \<and> (ph_enabled ph \<and> bodies ph = [b] \<and> gravity ph = g \<longrightarrow>
            PhysicsSystem_update dt ph h = (ph\<lparr> bodies := [b'] \<rparr>, h', []))"
proof -
  note f = before_bounds_fields [OF assms(5)]
  let ?r = "restitution b"
  let ?X = "hit_max (rd bd ''maxX'') ?r (hit_min (rd bd ''minX'') ?r (vx p4, vx (velocity b4)))"
  let ?Z = "hit_max (rd bd ''maxZ'') ?r (hit_min (rd bd ''minZ'') ?r (vz p4, vz (velocity b4)))"
  let ?pos = "p4\<lparr> vx := fst ?X, vz := fst ?Z \<rparr>"
  have b': "b' = reset_acceleration
                  (b4\<lparr> velocity := (velocity b4)\<lparr> vx := snd ?X, vz := snd ?Z \<rparr> \<rparr>)"
    and h': "h' = store_position b4 ?pos h4"
    using assms(1,2,5,6) f
    by (simp_all add: update_body_def bounds_collision_def Let_def split_beta)
  have pos: "position_get (h' (body_entity b)) =
      \<lparr> vx = or_default (fst ?X) (Fin 0), vy = or_default (vy p4) (Fin 0),
        vz = (case mesh (h4 (body_entity b)) of None \<Rightarrow> NaN
              | Some p \<Rightarrow> or_default (fst ?Z) (Fin 0)) \<rparr>"
    using f(1) by (simp add: h' store_position_def position_get_set split: option.splits)
  have vel: "velocity b' = (velocity b4)\<lparr> vx := snd ?X, vz := snd ?Z \<rparr>"
    by (simp add: b' reset_acceleration_def)
  have cx: "fst ?X = (if num_lt (vx p4) (rd bd ''minX'') then rd bd ''minX''
                      else if num_gt (vx p4) (rd bd ''maxX'') then rd bd ''maxX'' else vx p4)"
    by (simp add: hit_max_hit_min [OF assms(3)])
  have cz: "fst ?Z = (if num_lt (vz p4) (rd bd ''minZ'') then rd bd ''minZ''
                      else if num_gt (vz p4) (rd bd ''maxZ'') then rd bd ''maxZ'' else vz p4)"
    by (simp add: hit_max_hit_min [OF assms(4)])
  have ex: "vx (position_get (h' (body_entity b))) =
           or_default (if num_lt (vx p4) (rd bd ''minX'') then rd bd ''minX''
                       else if num_gt (vx p4) (rd bd ''maxX'') then rd bd ''maxX''
                       else vx p4) (Fin 0)"
    by (simp only: pos cx vec3.simps)
  have ez: "mesh (h (body_entity b)) \<noteq> None \<longrightarrow>
            vz (position_get (h' (body_entity b))) =
              or_default (if num_lt (vz p4) (rd bd ''minZ'') then rd bd ''minZ''
                          else if num_gt (vz p4) (rd bd ''maxZ'') then rd bd ''maxZ''
                          else vz p4) (Fin 0)"
  proof
    assume "mesh (h (body_entity b)) \<noteq> None"
    with f(4) obtain p where "mesh (h4 (body_entity b)) = Some p" by auto
    then have "vz (position_get (h' (body_entity b))) = or_default (fst ?Z) (Fin 0)"
      by (simp add: pos)
    then show "vz (position_get (h' (body_entity b))) =
              or_default (if num_lt (vz p4) (rd bd ''minZ'') then rd bd ''minZ''
                          else if num_gt (vz p4) (rd bd ''maxZ'') then rd bd ''maxZ''
                          else vz p4) (Fin 0)"
      by (simp only: cz)
  qed
  have x: "vx p4 \<noteq> NaN \<longrightarrow>
            num_le (rd bd ''minX'') (vx (position_get (h' (body_entity b))))
          \<and> num_le (vx (position_get (h' (body_entity b)))) (rd bd ''maxX'')"
    using clamped_range [OF assms(3), of "vx p4" ?r "vx (velocity b4)"]
    by (simp add: pos or_default_zero_le)
  have z: "vz p4 \<noteq> NaN \<and> mesh (h (body_entity b)) \<noteq> None \<longrightarrow>
            num_le (rd bd ''minZ'') (vz (position_get (h' (body_entity b))))
          \<and> num_le (vz (position_get (h' (body_entity b)))) (rd bd ''maxZ'')"
    using clamped_range [OF assms(4), of "vz p4" ?r "vz (velocity b4)"] f(4)
    by (auto simp: pos or_default_zero_le split: option.splits)
  have wx: "vx (velocity b') =
           (if num_lt (vx p4) (rd bd ''minX'') \<or> num_gt (vx p4) (rd bd ''maxX'')
            then num_mul (vx (velocity b4)) (num_neg ?r) else vx (velocity b4))"
    by (simp add: vel hit_max_hit_min [OF assms(3)])
  have wz: "vz (velocity b') =
           (if num_lt (vz p4) (rd bd ''minZ'') \<or> num_gt (vz p4) (rd bd ''maxZ'')
            then num_mul (vz (velocity b4)) (num_neg ?r) else vz (velocity b4))"
    by (simp add: vel hit_max_hit_min [OF assms(4)])
  have wy: "vy (velocity b') = vy (velocity b4)"
    and py: "vy (position_get (h' (body_entity b))) = or_default (vy p4) (Fin 0)"
    by (simp_all add: vel pos)
  have alone: "ph_enabled ph \<and> bodies ph = [b] \<and> gravity ph = g \<longrightarrow>
            PhysicsSystem_update dt ph h = (ph\<lparr> bodies := [b'] \<rparr>, h', [])"
    by (simp add: PhysicsSystem_update_def assms(6))
  from ex ez x z wx wz wy py alone show ?thesis by blast
qed

theorem bounds_clamp_x_and_z_witness:
  "vx (position_get (fst (snd (PhysicsSystem_update (Fin 1)
       (new_physics\<lparr> bodies :=
          [new_body 0 (floating\<lparr> cfg_velocity := Some \<lparr> vx = Fin 4, vy = Fin 0, vz = Fin 0 \<rparr> \<rparr>)] \<rparr>)
       (\<lambda>r. at050))) 0)) = Fin 1
   \<and> vy (position_get (fst (snd (PhysicsSystem_update (Fin 1)
       (new_physics\<lparr> bodies :=
          [new_body 0 (floating\<lparr> cfg_velocity := Some \<lparr> vx = Fin 4, vy = Fin 0, vz = Fin 0 \<rparr> \<rparr>)] \<rparr>)
       (\<lambda>r. at050))) 0)) = Fin 5
   \<and> vz (position_get (fst (snd (PhysicsSystem_update (Fin 1)
       (new_physics\<lparr> bodies :=
          [new_body 0 (floating\<lparr> cfg_velocity := Some \<lparr> vx = Fin 4, vy = Fin 0, vz = Fin 0 \<rparr> \<rparr>)] \<rparr>)
       (\<lambda>r. at050))) 0)) = Fin 0
   \<and> map (\<lambda>b. vx (velocity b)) (bodies (fst (PhysicsSystem_update (Fin 1)
       (new_physics\<lparr> bodies :=
          [new_body 0 (floating\<lparr> cfg_velocity := Some \<lparr> vx = Fin 4, vy = Fin 0, vz = Fin 0 \<rparr> \<rparr>)] \<rparr>)
       (\<lambda>r. at050)))) = [Fin (- 1)]"
proof -
  let ?b = "new_body 0 (floating\<lparr> cfg_velocity := Some \<lparr> vx = Fin 4, vy = Fin 0, vz = Fin 0 \<rparr> \<rparr>)"
  let ?h = "\<lambda>r::nat. at050"
  let ?ph = "new_physics\<lparr> bodies := [?b] \<rparr>"
  let ?s = "before_bounds (Fin 1) (gravity ?ph) ?b ?h"
  let ?u = "update_body (Fin 1) (gravity ?ph) ?b ?h"
  have s: "?s = (?b\<lparr> velocity := \<lparr> vx = Fin 2, vy = Fin 0, vz = Fin 0 \<rparr> \<rparr>,
                 \<lparr> vx = Fin 2, vy = Fin 5, vz = Fin 0 \<rparr>,
                 ?h(0 := at050\<lparr> mesh := Some \<lparr> vx = Fin 2, vy = Fin 5, vz = Fin 0 \<rparr> \<rparr>))"
    by (simp add: physics_eval floating_def no_config_def at050_def boxed_def no_drag_numbers)
  have 1: "\<not> isStatic ?b" and 2: "bounds ?b = Some boxed"
    and 3: "num_le (rd boxed ''minX'') (rd boxed ''maxX'')"
    and 4: "num_le (rd boxed ''minZ'') (rd boxed ''maxZ'')"
    by (simp_all add: new_body_def floating_def no_config_def boxed_def rd_def num_le_def)
  have 6: "?u = (fst ?u, snd ?u)" by simp
  have 7: "ph_enabled ?ph \<and> bodies ?ph = [?b] \<and> gravity ?ph = gravity ?ph"
    by (simp add: new_physics_def)
  have 8: "body_entity ?b = 0" "restitution ?b = Fin (1 / 2)" "mesh at050 \<noteq> None"
    by (simp_all add: new_body_def floating_def no_config_def opt_or_def or_default_def
        truthy_def at050_def)
  from bounds_clamp_x_and_z [OF 1 2 3 4 s 6, where ph = ?ph] 7 8
  show ?thesis
    by (simp add: rd_def boxed_def or_default_def truthy_def num_lt_def num_gt_def
        no_drag_numbers)
qed

text \<open>
  C6, as stated, fails for a gravity-affected body.  A force of 50 upwards on a body of mass 1
  is accumulated in the acceleration, and the next step gives the same body and the same
  positions as if no force had been applied: the step overwrites the vertical acceleration
  with the gravity constant.
\<close>

theorem vertical_force_lost_under_gravity:
  "acceleration (applyForce (new_body 0 no_config) \<lparr> vx = Fin 0, vy = Fin 50, vz = Fin 0 \<rparr>)
     = \<lparr> vx = Fin 0, vy = Fin 50, vz = Fin 0 \<rparr>
   \<and> useGravity (new_body 0 no_config)
   \<and> update_body (Fin 1) (Fin (- 10))
        (applyForce (new_body 0 no_config) \<lparr> vx = Fin 0, vy = Fin 50, vz = Fin 0 \<rparr>)
        (\<lambda>r. at123)
     = update_body (Fin 1) (Fin (- 10)) (new_body 0 no_config) (\<lambda>r. at123)"
proof -
  have n: "num_div (Fin 0) (Fin 1) = Fin 0" "num_div (Fin 50) (Fin 1) = Fin 50"
    "num_add (Fin 0) (Fin 0) = Fin 0" "num_add (Fin 0) (Fin 50) = Fin 50"
    by (simp_all add: num_eval)
  show ?thesis
    by (simp add: applyForce_def new_body_def no_config_def vec_or_def opt_or_def n
        update_body_def before_bounds_def integrate_def apply_gravity_def update_velocity_def
        apply_drag_def store_position_def)
qed

text \<open>
  C6, amended.  \<^verbatim>\<open>applyForce\<close> adds \<open>force / mass\<close> to the acceleration, component by
  component.  The integration of the next step adds \<open>acceleration * dt\<close> to the velocity
  (and applies the drag) with the accumulated \<open>x\<close> and \<open>z\<close> components, and with the
  accumulated \<open>y\<close> component if the body is not gravity-affected; for a gravity-affected body
  the vertical acceleration used is the gravity constant.  The step of a dynamic body ends
  with the acceleration at zero, and when the body has no bounds and does not reach the
  ground, its velocity after the step is the integrated one.
\<close>

theorem force_accumulated_applied_reset:
  "acceleration (applyForce b force) =
      \<lparr> vx = num_add (vx (acceleration b)) (num_div (vx force) (mass b)),
        vy = num_add (vy (acceleration b)) (num_div (vy force) (mass b)),
        vz = num_add (vz (acceleration b)) (num_div (vz force) (mass b)) \<rparr>
   \<and> velocity (integrate dt g b) =
      \<lparr> vx = num_mul (num_add (vx (velocity b)) (num_mul (vx (acceleration b)) dt))
               (num_sub (Fin 1) (drag b)),
        vy = num_mul (num_add (vy (velocity b))
                 (num_mul (if useGravity b then g else vy (acceleration b)) dt))
               (num_sub (Fin 1) (drag b)),
        vz = num_mul (num_add (vz (velocity b)) (num_mul (vz (acceleration b)) dt))
               (num_sub (Fin 1) (drag b)) \<rparr>
   \<and> (\<not> isStatic b \<longrightarrow>
        acceleration (fst (update_body dt g b h)) = \<lparr> vx = Fin 0, vy = Fin 0, vz = Fin 0 \<rparr>)
   \<and> (\<not> isStatic b \<and> bounds b = None
        \<and> \<not> num_lt (vy (update_position dt (integrate dt g b)
                               (position_get (h (body_entity b))))) (Fin 0) \<longrightarrow>
        velocity (fst (update_body dt g b h)) = velocity (integrate dt g b))"
  by (simp add: applyForce_def integrate_def apply_drag_def update_velocity_def
      apply_gravity_def update_body_def before_bounds_def ground_collision_def
      bounds_collision_def reset_acceleration_def Let_def split_beta split: option.splits)

theorem force_accumulated_applied_reset_witness:
  "velocity (fst (update_body (Fin 1) (Fin (- 10))
      (applyForce (new_body 0 (floating\<lparr> cfg_bounds := None \<rparr>))
         \<lparr> vx = Fin 4, vy = Fin 3, vz = Fin 0 \<rparr>) (\<lambda>r. at050)))
     = \<lparr> vx = Fin 2, vy = Fin (3 / 2), vz = Fin 0 \<rparr>
   \<and> acceleration (fst (update_body (Fin 1) (Fin (- 10))
      (applyForce (new_body 0 (floating\<lparr> cfg_bounds := None \<rparr>))
         \<lparr> vx = Fin 4, vy = Fin 3, vz = Fin 0 \<rparr>) (\<lambda>r. at050)))
     = \<lparr> vx = Fin 0, vy = Fin 0, vz = Fin 0 \<rparr>"
proof -
  let ?b = "new_body 0 (floating\<lparr> cfg_bounds := None \<rparr>)"
  let ?f = "\<lparr> vx = Fin 4, vy = Fin 3, vz = Fin 0 \<rparr>"
  have n: "num_div (Fin 4) (Fin 1) = Fin 4" "num_div (Fin 3) (Fin 1) = Fin 3"
    "num_div (Fin 0) (Fin 1) = Fin 0" "num_add (Fin 0) (Fin 4) = Fin 4"
    "num_add (Fin 0) (Fin 3) = Fin 3" "num_mul (Fin 4) (Fin 1) = Fin 4"
    "num_mul (Fin 3) (Fin 1) = Fin 3"
    by (simp_all add: num_eval)
  from force_accumulated_applied_reset [of ?b ?f "Fin 1" "Fin (- 10)" "\<lambda>r. at050"]
    force_accumulated_applied_reset [of "applyForce ?b ?f" ?f "Fin 1" "Fin (- 10)" "\<lambda>r. at050"]
  show ?thesis
    by (simp add: applyForce_def new_body_def floating_def no_config_def vec_or_def opt_or_def
        or_default_def truthy_def update_position_def position_get_def at050_def num_lt_def
        n no_drag_numbers)
qed

section \<open>Unsubscribing during a dispatch\<close>

lemma forEach_from_step:
  "k < len \<Longrightarrow> forEach_from run event data len k s =
     forEach_from run event data len (Suc k)
       (case events s event of
          None \<Rightarrow> s
        | Some cbs \<Rightarrow> if k < length cbs then invoke run (cbs ! k) data s else s)"
  by (subst forEach_from.simps) simp

lemma forEach_from_done: "\<not> k < len \<Longrightarrow> forEach_from run event data len k s = s"
  by (subst forEach_from.simps) simp

lemmas emitter_eval =
  emit_def on_def off_def once_def record_call_def recording_def leaving_def new_emitter_def
  forEach_from_step forEach_from_done

text \<open>
  When no callback touches the table, a publish invokes the subscribers of the event once
  each, in the order of subscription.
\<close>

lemma events_recording: "events (recording n data s) = events s"
  by (simp add: recording_def record_call_def)

lemma forEach_recording:
  assumes "events s event = Some (map Fn ns)" and "k \<le> length ns"
  shows "world (forEach_from recording event data (length ns) k s) = world s @ drop k ns
       \<and> events (forEach_from recording event data (length ns) k s) = events s"
  using assms
proof (induction "length ns - k" arbitrary: k s)
  case 0
  then show ?case by (simp add: forEach_from_done)
next
  case (Suc d)
  then have k: "k < length ns" by simp
  let ?s = "invoke recording (map Fn ns ! k) data s"
  have s': "?s = record_call (ns ! k) s" using k by (simp add: recording_def)
  have ev: "events ?s event = Some (map Fn ns)"
    using Suc.prems(1) k by (simp add: recording_def record_call_def)
  have "d = length ns - Suc k" using Suc.hyps(2) by simp
  from Suc.hyps(1) [OF this ev] k
  have "world (forEach_from recording event data (length ns) (Suc k) ?s)
          = world ?s @ drop (Suc k) ns
        \<and> events (forEach_from recording event data (length ns) (Suc k) ?s) = events ?s"
    by simp
  moreover have "forEach_from recording event data (length ns) k s
      = forEach_from recording event data (length ns) (Suc k) ?s"
    using k Suc.prems(1) by (simp add: forEach_from_step)
  moreover have "world ?s @ drop (Suc k) ns = world s @ drop k ns"
    using k by (simp add: recording_def record_call_def Cons_nth_drop_Suc)
  moreover have "events ?s = events s" using k by (simp add: recording_def record_call_def)
  ultimately show ?case by simp
qed

lemma emit_in_subscription_order:
  assumes "events s event = Some (map Fn ns)"
  shows "world (emit recording event data s) = world s @ ns"
  using forEach_recording [OF assms, of 0 data] assms by (simp add: emit_def)

text \<open>
  C2 does not hold of \<^verbatim>\<open>emit\<close>: the dispatch walks the live array by index, so when the
  callback at index \<open>k\<close> unsubscribes itself the callbacks behind it move down by one and the
  next one is passed over.  Function 1, which unsubscribes itself, and function 2 are
  subscribed to \<open>foo\<close> in this order: the first publish invokes 1 only, and 2 is invoked for
  the first time by the second publish.  The same happens with the emitter's own \<^verbatim>\<open>once\<close>:
  after \<^verbatim>\<open>once('foo', f1); on('foo', f2)\<close> a publish invokes \<open>f1\<close> only.  With three
  subscribers the publish invokes the first and the third.
\<close>

theorem self_unsubscribe_skips_next:
  "world (emit leaving ''foo'' NoData (on ''foo'' (Fn 2) (on ''foo'' (Fn 1) new_emitter))) = [1]
   \<and> world (emit leaving ''foo'' NoData
        (emit leaving ''foo'' NoData (on ''foo'' (Fn 2) (on ''foo'' (Fn 1) new_emitter))))
      = [1, 2]
   \<and> world (emit recording ''foo'' NoData
        (on ''foo'' (Fn 2) (once ''foo'' (Fn 1) new_emitter))) = [1]
   \<and> world (emit leaving ''foo'' NoData
        (on ''foo'' (Fn 3) (on ''foo'' (Fn 2) (on ''foo'' (Fn 1) new_emitter)))) = [1, 3]"
  by (simp add: emitter_eval)

section \<open>The registry and the order of a frame\<close>

lemma map_of_Map_set: "map_of (Map_set k v kvs) = (map_of kvs)(k \<mapsto> v)"
  by (induction kvs) auto

lemma keys_Map_set: "map_of kvs k \<noteq> None \<Longrightarrow> map fst (Map_set k v kvs) = map fst kvs"
  by (induction kvs) (auto split: if_splits)

text \<open>
  C5, amended.  When the name is already in the registry, \<^verbatim>\<open>create\<close> does not fail: it
  returns a new entity, built from the name and the configuration, and stores it under the
  name in place of the entity that was there.  The keys of the registry and their order, the
  entries of all other names and all other entity objects are as before, and
  \<open>entity:create\<close> is published for the new entity.
\<close>

theorem create_existing_name_replaces:
  assumes "Map_get (registry eng) n \<noteq> None"
  shows "fst (create n config eng) = next_ref eng
       \<and> Map_get (registry (snd (create n config eng))) n = Some (next_ref eng)
       \<and> heap (snd (create n config eng)) (next_ref eng) = new_entity n config
       \<and> map fst (registry (snd (create n config eng))) = map fst (registry eng)
       \<and> (\<forall>m. m \<noteq> n \<longrightarrow>
             Map_get (registry (snd (create n config eng))) m = Map_get (registry eng) m)
       \<and> (\<forall>r. r \<noteq> next_ref eng \<longrightarrow> heap (snd (create n config eng)) r = heap eng r)
       \<and> published (snd (create n config eng))
           = published eng @ [(''entity:create'', EntityData (next_ref eng))]"
  using assms
  by (simp add: create_def Map_get_def map_of_Map_set keys_Map_set Let_def)

text \<open>
  C5, as stated, fails: \<^verbatim>\<open>create\<close> has no failing branch.  Creating \<open>a\<close> twice returns
  normally both times; after the second call the registry maps \<open>a\<close> to the second entity.
\<close>

theorem duplicate_create_does_not_fail:
  "get_entity ''a'' (snd (create ''a'' plain (new_engine ''3d''))) = Some 0
   \<and> create ''a'' (plain\<lparr> ecfg_enabled := Some False \<rparr>) (snd (create ''a'' plain (new_engine ''3d'')))
      = (1, (snd (create ''a'' plain (new_engine ''3d'')))
              \<lparr> heap := (heap (snd (create ''a'' plain (new_engine ''3d''))))
                          (1 := new_entity ''a'' (plain\<lparr> ecfg_enabled := Some False \<rparr>)),
                next_ref := 2,
                registry := [(''a'', 1)],
                published := [(''entity:create'', EntityData 0), (''entity:create'', EntityData 1)] \<rparr>)"
  by (simp add: create_def get_entity_def Map_get_def new_engine_def new_entity_def plain_def
      Let_def)

lemmas engine_eval = demo_engine_def new_engine_def new_entity_def plain_def

lemma demo_engine_registry: "registry demo_engine = [(''hero'', 0), (''ghost'', 1)]"
  by (simp add: engine_eval)

lemma demo_engine_next_ref: "next_ref demo_engine = 2"
  by (simp add: engine_eval)

theorem create_existing_name_replaces_witness:
  "Map_get (registry demo_engine) ''hero'' \<noteq> None
   \<and> Map_get (registry (snd (create ''hero'' plain demo_engine))) ''hero'' = Some 2
   \<and> map fst (registry (snd (create ''hero'' plain demo_engine))) = [''hero'', ''ghost'']"
proof -
  have h: "Map_get (registry demo_engine) ''hero'' \<noteq> None"
    by (simp add: Map_get_def demo_engine_registry)
  from create_existing_name_replaces [OF h, of plain] h show ?thesis
    by (simp add: demo_engine_registry demo_engine_next_ref)
qed

text \<open>Systems and hooks are kept in the order in which they were added.\<close>

lemma Map_set_new_key: "map_of kvs k = None \<Longrightarrow> Map_set k v kvs = kvs @ [(k, v)]"
  by (induction kvs) (auto split: if_splits)

lemma system_add_order:
  "Map_get (systems eng) n = None \<Longrightarrow>
   map fst (systems (fst (system_add n s eng))) = map fst (systems eng) @ [n]"
  by (simp add: system_add_def Map_get_def Map_set_new_key)

lemma hook_order:
  "hooks_preUpdate (hook_preUpdate fn eng) = hooks_preUpdate eng @ [fn]"
  "hooks_postUpdate (hook_postUpdate fn eng) = hooks_postUpdate eng @ [fn]"
  "hooks_preRender (hook_preRender fn eng) = hooks_preRender eng @ [fn]"
  "hooks_postRender (hook_postRender fn eng) = hooks_postRender eng @ [fn]"
  by (simp_all add: hook_preUpdate_def hook_postUpdate_def hook_preRender_def
      hook_postRender_def)

lemma Entity_update_eq:
  "Entity_update dt r scs =
    map (\<lambda>sc. ScriptUpdate (the (script_update sc)) dt r)
      (filter (\<lambda>sc. script_update sc \<noteq> None) scs)"
  by (induction scs) (auto split: option.splits)

lemma update_systems_eq: "update_systems dt ss = system_calls dt ss"
  by (induction ss) (auto simp: system_calls_def split: if_splits)

lemma update_entities_eq: "update_entities dt h es = script_calls dt h es"
  by (induction es) (auto simp: script_calls_def Entity_update_eq)

lemma core_system_calls: "filter core_step (system_calls dt ss) = system_calls dt ss"
  by (induction ss) (auto simp: system_calls_def)

lemma core_script_calls: "filter core_step (script_calls dt h es) = script_calls dt h es"
  by (auto simp: script_calls_def filter_concat comp_def filter_map split_beta intro!: arg_cong [of _ _ concat])

text \<open>
  C1.  A frame of a running, unpaused engine makes its calls in this order: the pre-update
  hooks with \<open>dt\<close>, the physics step, the particle step, the tween step, the \<open>update\<close> of
  every enabled system in the order of the table, the \<open>update\<close> of the scripts of every
  enabled entity in the order of the registry, the post-update hooks, the pre-render hooks,
  the render, the post-render hooks.  The frame also refreshes the input provider, before the
  physics step, and the performance monitor, at its end; these two calls apart, the sequence
  is the specified one.
\<close>

theorem frame_order:
  assumes "isRunning eng" and "\<not> isPaused eng"
  shows "snd (loop dt eng) =
           map (\<lambda>fn. PreUpdateHook fn dt) (hooks_preUpdate eng)
           @ [InputUpdate dt, PhysicsUpdate dt, ParticlesUpdate dt, TweensUpdate dt]
           @ system_calls dt (systems eng)
           @ script_calls dt (heap eng) (registry eng)
           @ map (\<lambda>fn. PostUpdateHook fn dt) (hooks_postUpdate eng)
           @ map PreRenderHook (hooks_preRender eng)
           @ [Render]
           @ map PostRenderHook (hooks_postRender eng)
           @ [PerformanceUpdate]
       \<and> filter core_step (snd (loop dt eng)) = specified_frame dt eng"
  using assms
  by (simp add: loop_def update_def specified_frame_def update_systems_eq update_entities_eq
      core_system_calls core_script_calls filter_map comp_def)

lemma demo_engine_tables:
  "isRunning demo_engine" "\<not> isPaused demo_engine"
  "hooks_preUpdate demo_engine = [10, 11]" "hooks_postUpdate demo_engine = [12]"
  "hooks_preRender demo_engine = [13]" "hooks_postRender demo_engine = [14]"
  by (simp_all add: engine_eval)

theorem frame_order_witness:
  "snd (loop (Fin (1 / 64)) demo_engine) =
     [PreUpdateHook 10 (Fin (1 / 64)), PreUpdateHook 11 (Fin (1 / 64)),
      InputUpdate (Fin (1 / 64)), PhysicsUpdate (Fin (1 / 64)), ParticlesUpdate (Fin (1 / 64)),
      TweensUpdate (Fin (1 / 64)),
      SystemUpdate 20 (Fin (1 / 64)), SystemUpdate 22 (Fin (1 / 64)),
      ScriptUpdate 30 (Fin (1 / 64)) 0, ScriptUpdate 32 (Fin (1 / 64)) 0,
      PostUpdateHook 12 (Fin (1 / 64)), PreRenderHook 13, Render, PostRenderHook 14,
      PerformanceUpdate]"
proof -
  have sys: "system_calls (Fin (1 / 64)) (systems demo_engine)
      = [SystemUpdate 20 (Fin (1 / 64)), SystemUpdate 22 (Fin (1 / 64))]"
    by (simp add: engine_eval system_calls_def)
  have scr: "script_calls (Fin (1 / 64)) (heap demo_engine) (registry demo_engine)
      = [ScriptUpdate 30 (Fin (1 / 64)) 0, ScriptUpdate 32 (Fin (1 / 64)) 0]"
    by (simp add: engine_eval script_calls_def)
  from frame_order [OF demo_engine_tables(1,2), of "Fin (1 / 64)"] show ?thesis
    by (simp add: demo_engine_tables sys scr)
qed

end
